theory Spec2Isabelle
  imports Complex_Main "HOL-Library.Char_ord" "HOL-Library.List_Lexorder"
begin

section \<open>Python exceptions\<close>

text \<open>
  The exceptions that the modelled code, or the library calls it makes, can raise.
  A function that can raise returns \<open>error + 'a\<close>, with \<open>Inl\<close> for the exception.
\<close>

datatype error =
  ValueError | IndexError | KeyError | RuntimeError | AttributeError | TypeError

text \<open>
  Subscription \<^verbatim>\<open>xs[idx]\<close> of a list or tuple. An index from \<open>-len(xs)\<close> up to \<open>-1\<close>
  addresses the elements from the end; any index outside \<open>-len(xs) .. len(xs) - 1\<close>
  raises IndexError.
\<close>

definition getitem :: "'a list \<Rightarrow> int \<Rightarrow> error + 'a" where
  "getitem xs idx =
     (if 0 \<le> idx \<and> idx < int (length xs) then Inr (xs ! nat idx)
      else if idx < 0 \<and> - int (length xs) \<le> idx then Inr (xs ! nat (int (length xs) + idx))
      else Inl IndexError)"

section \<open>Tensors\<close>

text \<open>
  A torch tensor carries its shape and its elements. The elements are nested lists; the
  shape is kept beside them, since a dimension of size zero hides the sizes below it.
  Elements of a floating-point tensor are modelled as reals: arithmetic is exact.
\<close>

datatype 'a tensor2 = Tensor2 (rows: nat) (cols: nat) (elems2: "'a list list")

datatype 'a tensor3 =
  Tensor3 (size0: nat) (size1: nat) (size2: nat) (elems3: "'a list list list")

definition wf3 :: "'a tensor3 \<Rightarrow> bool" where
  "wf3 t \<longleftrightarrow> length (elems3 t) = size0 t \<and>
     (\<forall>m \<in> set (elems3 t). length m = size1 t \<and> (\<forall>v \<in> set m. length v = size2 t))"

definition at2 :: "'a tensor2 \<Rightarrow> nat \<Rightarrow> nat \<Rightarrow> 'a" where
  "at2 t i k = elems2 t ! i ! k"

definition at3 :: "'a tensor3 \<Rightarrow> nat \<Rightarrow> nat \<Rightarrow> nat \<Rightarrow> 'a" where
  "at3 t i j k = elems3 t ! i ! j ! k"

text \<open>The tensor of a given shape whose element at each index is given by \<open>f\<close>.\<close>

definition mk2 :: "nat \<Rightarrow> nat \<Rightarrow> (nat \<Rightarrow> nat \<Rightarrow> 'a) \<Rightarrow> 'a tensor2" where
  "mk2 b h f = Tensor2 b h (map (\<lambda>i. map (\<lambda>k. f i k) [0..<h]) [0..<b])"

definition mk3 :: "nat \<Rightarrow> nat \<Rightarrow> nat \<Rightarrow> (nat \<Rightarrow> nat \<Rightarrow> nat \<Rightarrow> 'a) \<Rightarrow> 'a tensor3" where
  "mk3 b s h f =
     Tensor3 b s h (map (\<lambda>i. map (\<lambda>j. map (\<lambda>k. f i j k) [0..<h]) [0..<s]) [0..<b])"

text \<open>A tensor of two or of three dimensions, where the code decides which at run time.\<close>

datatype tensor = T2 "real tensor2" | T3 "real tensor3"

subsection \<open>The torch operations that the pooling code calls\<close>

text \<open>\<^verbatim>\<open>t.transpose(1, 2)\<close>: shape [b, s, h] becomes [b, h, s].\<close>

definition transpose12 :: "'a tensor3 \<Rightarrow> 'a tensor3" where
  "transpose12 t = mk3 (size0 t) (size2 t) (size1 t) (\<lambda>i k j. at3 t i j k)"

text \<open>
  \<^verbatim>\<open>torch.avg_pool1d(t, kernel_size=k)\<close> on a tensor of shape [b, c, L]: the stride is
  the kernel size, there is no padding, and the output has \<open>L div k\<close> windows. A kernel of
  size zero, and an input shorter than the kernel, raise RuntimeError.
\<close>

definition avg_pool1d :: "real tensor3 \<Rightarrow> nat \<Rightarrow> error + real tensor3" where
  "avg_pool1d t k =
     (if k = 0 then Inl RuntimeError
      else if size2 t < k then Inl RuntimeError
      else Inr (mk3 (size0 t) (size1 t) (size2 t div k)
                 (\<lambda>i c j. (\<Sum>u \<leftarrow> [0..<k]. at3 t i c (j * k + u)) / real k)))"

text \<open>\<^verbatim>\<open>t.squeeze(-1)\<close>: the last dimension is removed when its size is one.\<close>

definition squeeze_last :: "real tensor3 \<Rightarrow> tensor" where
  "squeeze_last t =
     (if size2 t = 1 then T2 (mk2 (size0 t) (size1 t) (\<lambda>i c. at3 t i c 0)) else T3 t)"

text \<open>\<^verbatim>\<open>t.unsqueeze(1)\<close>: shape [b, h] becomes [b, 1, h].\<close>

definition unsqueeze1 :: "'a tensor2 \<Rightarrow> 'a tensor3" where
  "unsqueeze1 t = mk3 (rows t) 1 (cols t) (\<lambda>i j k. at2 t i k)"

text \<open>\<^verbatim>\<open>t.unsqueeze(-1)\<close>: shape [b, s] becomes [b, s, 1].\<close>

definition unsqueeze_last :: "'a tensor2 \<Rightarrow> 'a tensor3" where
  "unsqueeze_last t = mk3 (rows t) (cols t) 1 (\<lambda>i j k. at2 t i j)"

text \<open>
  \<^verbatim>\<open>torch.cat([a, b], dim=1)\<close>: the other two dimensions must agree, or RuntimeError.
\<close>

definition cat1 :: "'a tensor3 \<Rightarrow> 'a tensor3 \<Rightarrow> error + 'a tensor3" where
  "cat1 a b =
     (if size0 a = size0 b \<and> size2 a = size2 b
      then Inr (mk3 (size0 a) (size1 a + size1 b) (size2 a)
                 (\<lambda>i j k. if j < size1 a then at3 a i j k else at3 b i (j - size1 a) k))
      else Inl RuntimeError)"

text \<open>\<^verbatim>\<open>t[:, 0]\<close>: position 0 of dimension 1; IndexError when that dimension is empty.\<close>

definition select0 :: "'a tensor3 \<Rightarrow> error + 'a tensor2" where
  "select0 t =
     (if size1 t = 0 then Inl IndexError
      else Inr (mk2 (size0 t) (size2 t) (\<lambda>i k. at3 t i 0 k)))"

text \<open>
  \<^verbatim>\<open>t.expand(b, s, h)\<close>: every dimension of \<open>t\<close> has the requested size, or has size one
  and is repeated; otherwise RuntimeError.
\<close>

definition expand3 :: "'a tensor3 \<Rightarrow> nat \<Rightarrow> nat \<Rightarrow> nat \<Rightarrow> error + 'a tensor3" where
  "expand3 t b s h =
     (if (size0 t = b \<or> size0 t = 1) \<and> (size1 t = s \<or> size1 t = 1)
         \<and> (size2 t = h \<or> size2 t = 1)
      then Inr (mk3 b s h (\<lambda>i j k. at3 t (if size0 t = 1 then 0 else i)
                                         (if size1 t = 1 then 0 else j)
                                         (if size2 t = 1 then 0 else k)))
      else Inl RuntimeError)"

text \<open>\<^verbatim>\<open>t.float()\<close> on an integer tensor.\<close>

definition float3 :: "int tensor3 \<Rightarrow> real tensor3" where
  "float3 t = mk3 (size0 t) (size1 t) (size2 t) (\<lambda>i j k. real_of_int (at3 t i j k))"

text \<open>
  \<^verbatim>\<open>a * b\<close>, element by element. The code multiplies two tensors of one shape (the
  second was expanded to the size of the first), so broadcasting plays no role.
\<close>

definition mul3 :: "real tensor3 \<Rightarrow> real tensor3 \<Rightarrow> real tensor3" where
  "mul3 a b = mk3 (size0 a) (size1 a) (size2 a) (\<lambda>i j k. at3 a i j k * at3 b i j k)"

text \<open>\<^verbatim>\<open>torch.sum(t, 1)\<close>, also written \<^verbatim>\<open>t.sum(1)\<close>: shape [b, s, h] becomes [b, h].\<close>

definition sum1 :: "real tensor3 \<Rightarrow> real tensor2" where
  "sum1 t = mk2 (size0 t) (size2 t) (\<lambda>i k. \<Sum>j \<leftarrow> [0..<size1 t]. at3 t i j k)"

text \<open>\<^verbatim>\<open>torch.clamp(t, min=m)\<close>.\<close>

definition clamp_min :: "real tensor2 \<Rightarrow> real \<Rightarrow> real tensor2" where
  "clamp_min t m = mk2 (rows t) (cols t) (\<lambda>i k. max (at2 t i k) m)"

text \<open>
  \<^verbatim>\<open>a / b\<close>, element by element, on two tensors of one shape (both are sums over
  dimension 1 of tensors of one shape). Torch does not raise on a zero divisor; it yields
  an infinity or a NaN, which the reals do not have. The code divides by a clamped tensor
  only, and the theorem on the all-zero mask shows that its entries are not zero.
\<close>

definition div2 :: "real tensor2 \<Rightarrow> real tensor2 \<Rightarrow> real tensor2" where
  "div2 a b = mk2 (rows a) (cols a) (\<lambda>i k. at2 a i k / at2 b i k)"

section \<open>The encoder and its output\<close>

text \<open>
  Modelled from the spec: the enumeration \<^verbatim>\<open>EncoderType\<close> is imported from
  \<^verbatim>\<open>utils.base\<close>, which is not among the source files. Its five members are the ones
  that \<^verbatim>\<open>get_sentence_embeddings\<close> compares with and that the spec lists.
\<close>

datatype EncoderType = FIRST_LAST_AVG | LAST_AVG | CLS | POOLER | MEAN

text \<open>
  What the transformer returns when called with \<^verbatim>\<open>output_hidden_states=True\<close>: the
  tuple of hidden states (the embedding layer's output first, then one per transformer
  layer), the last layer's hidden state, and the output of the pooling head when the model
  has one.
\<close>

record model_output =
  hidden_states :: "real tensor3 list"
  last_hidden_state :: "real tensor3"
  pooler_output :: "real tensor2 option"

text \<open>
  The transformer itself is external: a function of the token ids, the attention mask and
  the token type ids that returns its output or raises.
\<close>

type_synonym encoder = "int tensor2 \<Rightarrow> int tensor2 \<Rightarrow> int tensor2 \<Rightarrow> error + model_output"

section \<open>Pooling: \<^verbatim>\<open>BaseSentenceModel.get_sentence_embeddings\<close>\<close>

text \<open>
  Each branch of the method is a definition of its own, named after the encoder type it
  serves; the method itself follows them.

  In the first branch \<^verbatim>\<open>hidden_states[1]\<close> is the output of the first transformer
  layer and \<^verbatim>\<open>hidden_states[-1]\<close> that of the last. The sequence length is read from
  the first of the two and used as kernel size for both. A pooled tensor that keeps three
  dimensions after \<^verbatim>\<open>squeeze(-1)\<close> has four after \<^verbatim>\<open>unsqueeze(1)\<close>: then
  \<^verbatim>\<open>torch.cat\<close> rejects operands of different rank, and \<^verbatim>\<open>avg_pool1d\<close>
  rejects an input of four dimensions, with RuntimeError either way.
\<close>

definition first_last_avg :: "model_output \<Rightarrow> error + tensor option" where
  "first_last_avg out =
     (case getitem (hidden_states out) 1 of Inl e \<Rightarrow> Inl e | Inr first_t \<Rightarrow>
     (case getitem (hidden_states out) (- 1) of Inl e \<Rightarrow> Inl e | Inr last_t \<Rightarrow>
     (let seq_length = size1 first_t in
     (case avg_pool1d (transpose12 first_t) seq_length of Inl e \<Rightarrow> Inl e | Inr fp \<Rightarrow>
     (case avg_pool1d (transpose12 last_t) seq_length of Inl e \<Rightarrow> Inl e | Inr lp \<Rightarrow>
     (case (squeeze_last fp, squeeze_last lp) of
        (T2 first_avg, T2 last_avg) \<Rightarrow>
          (case cat1 (unsqueeze1 first_avg) (unsqueeze1 last_avg) of Inl e \<Rightarrow> Inl e
           | Inr both \<Rightarrow>
             (case avg_pool1d (transpose12 both) 2 of Inl e \<Rightarrow> Inl e
              | Inr final_encoding \<Rightarrow> Inr (Some (squeeze_last final_encoding))))
      | _ \<Rightarrow> Inl RuntimeError))))))"

definition last_avg :: "model_output \<Rightarrow> error + tensor option" where
  "last_avg out =
     (let sequence_output = last_hidden_state out;
          seq_length = size1 sequence_output
      in case avg_pool1d (transpose12 sequence_output) seq_length of Inl e \<Rightarrow> Inl e
         | Inr final_encoding \<Rightarrow> Inr (Some (squeeze_last final_encoding)))"

definition cls :: "model_output \<Rightarrow> error + tensor option" where
  "cls out =
     (let sequence_output = last_hidden_state out
      in case select0 sequence_output of Inl e \<Rightarrow> Inl e | Inr t \<Rightarrow> Inr (Some (T2 t)))"

definition pooler :: "model_output \<Rightarrow> error + tensor option" where
  "pooler out = Inr (map_option T2 (pooler_output out))"

text \<open>
  The MEAN branch, in two steps: the two operands of the division (the masked sum of the
  token vectors, and the number of unmasked positions clamped from below), then their
  quotient.
\<close>

definition mean_operands ::
  "model_output \<Rightarrow> int tensor2 \<Rightarrow> error + (real tensor2 \<times> real tensor2)" where
  "mean_operands out attention_mask =
     (let token_embeddings = last_hidden_state out
      in case expand3 (unsqueeze_last attention_mask) (size0 token_embeddings)
                (size1 token_embeddings) (size2 token_embeddings) of
           Inl e \<Rightarrow> Inl e
         | Inr expanded \<Rightarrow>
             let input_mask_expanded = float3 expanded
             in Inr (sum1 (mul3 token_embeddings input_mask_expanded),
                     clamp_min (sum1 input_mask_expanded) (1 / 10 ^ 9)))"

definition mean_pool :: "model_output \<Rightarrow> int tensor2 \<Rightarrow> error + tensor option" where
  "mean_pool out attention_mask =
     (case mean_operands out attention_mask of
        Inl e \<Rightarrow> Inl e
      | Inr (numerator, denominator) \<Rightarrow>
          let final_encoding = div2 numerator denominator
          in Inr (Some (T2 final_encoding)))"

text \<open>
  The method returns the pooled tensor, or Python's \<^verbatim>\<open>None\<close> (\<open>Inr None\<close>) when it
  falls off its end.
\<close>

definition get_sentence_embeddings ::
  "encoder \<Rightarrow> EncoderType option \<Rightarrow> int tensor2 \<Rightarrow> int tensor2 \<Rightarrow> int tensor2
     \<Rightarrow> error + tensor option" where
  "get_sentence_embeddings model encoder_type input_ids attention_mask token_type_ids =
     (case model input_ids attention_mask token_type_ids of Inl e \<Rightarrow> Inl e
      | Inr model_output \<Rightarrow>
          if encoder_type = Some FIRST_LAST_AVG then first_last_avg model_output
          else if encoder_type = Some LAST_AVG then last_avg model_output
          else if encoder_type = Some CLS then cls model_output
          else if encoder_type = Some POOLER then pooler model_output
          else if encoder_type = Some MEAN then mean_pool model_output attention_mask
          else Inr None)"

text \<open>
  The average of a layer's token vectors over the sequence dimension, as the spec words
  it: entry \<open>(i, k)\<close> is the mean over all positions \<open>j\<close> of sentence \<open>i\<close> of component
  \<open>k\<close>. The pooling theorems compare the code with it.
\<close>

definition seq_mean :: "real tensor3 \<Rightarrow> real tensor2" where
  "seq_mean t = mk2 (size0 t) (size2 t)
     (\<lambda>i k. (\<Sum>j \<leftarrow> [0..<size1 t]. at3 t i j k) / real (size1 t))"

text \<open>
  Mean pooling weighted by the attention mask, as the spec words it: for each sentence the
  sum of the token vectors where the mask is set, divided by the number of such positions,
  with \<open>1e-9\<close> as the least divisor.
\<close>

definition masked_mean :: "real tensor3 \<Rightarrow> int tensor2 \<Rightarrow> real tensor2" where
  "masked_mean t m = mk2 (size0 t) (size2 t)
     (\<lambda>i k. (\<Sum>j \<leftarrow> [0..<size1 t]. at3 t i j k * real_of_int (at2 m i j))
            / max (\<Sum>j \<leftarrow> [0..<size1 t]. real_of_int (at2 m i j)) (1 / 10 ^ 9))"

text \<open>
  An encoder output as a transformer produces it for a batch of \<open>b\<close> sentences padded to
  \<open>s\<close> tokens with hidden size \<open>h\<close>: at least the embedding layer and one transformer
  layer, and the layers that the pooling code reads all of shape [b, s, h].
\<close>

definition shape3 :: "'a tensor3 \<Rightarrow> nat \<times> nat \<times> nat" where
  "shape3 t = (size0 t, size1 t, size2 t)"

definition well_shaped :: "model_output \<Rightarrow> nat \<Rightarrow> nat \<Rightarrow> nat \<Rightarrow> bool" where
  "well_shaped out b s h \<longleftrightarrow>
     2 \<le> length (hidden_states out) \<and>
     shape3 (hidden_states out ! 1) = (b, s, h) \<and>
     shape3 (last (hidden_states out)) = (b, s, h) \<and>
     shape3 (last_hidden_state out) = (b, s, h)"

section \<open>The MEAN branch on values that are not finite\<close>

text \<open>
  The reals have no infinity and no NaN, so the definitions above describe the code on
  finite hidden states. For the MEAN branch the difference matters where a hidden state is
  multiplied by a mask entry of zero. The branch is therefore modelled a second time, on
  float values with the special values of IEEE arithmetic. A finite value is a real:
  rounding and overflow are not modelled, and the two zeros are one value.
\<close>

datatype ieee = Finite real | PosInf | NegInf | NaN

fun ieee_mul :: "ieee \<Rightarrow> ieee \<Rightarrow> ieee" where
  "ieee_mul NaN y = NaN"
| "ieee_mul (Finite a) NaN = NaN"
| "ieee_mul PosInf NaN = NaN"
| "ieee_mul NegInf NaN = NaN"
| "ieee_mul (Finite a) (Finite b) = Finite (a * b)"
| "ieee_mul (Finite a) PosInf = (if a = 0 then NaN else if 0 < a then PosInf else NegInf)"
| "ieee_mul (Finite a) NegInf = (if a = 0 then NaN else if 0 < a then NegInf else PosInf)"
| "ieee_mul PosInf (Finite b) = (if b = 0 then NaN else if 0 < b then PosInf else NegInf)"
| "ieee_mul NegInf (Finite b) = (if b = 0 then NaN else if 0 < b then NegInf else PosInf)"
| "ieee_mul PosInf PosInf = PosInf"
| "ieee_mul PosInf NegInf = NegInf"
| "ieee_mul NegInf PosInf = NegInf"
| "ieee_mul NegInf NegInf = PosInf"

fun ieee_add :: "ieee \<Rightarrow> ieee \<Rightarrow> ieee" where
  "ieee_add NaN y = NaN"
| "ieee_add (Finite a) NaN = NaN"
| "ieee_add PosInf NaN = NaN"
| "ieee_add NegInf NaN = NaN"
| "ieee_add (Finite a) (Finite b) = Finite (a + b)"
| "ieee_add (Finite a) PosInf = PosInf"
| "ieee_add (Finite a) NegInf = NegInf"
| "ieee_add PosInf (Finite b) = PosInf"
| "ieee_add NegInf (Finite b) = NegInf"
| "ieee_add PosInf PosInf = PosInf"
| "ieee_add PosInf NegInf = NaN"
| "ieee_add NegInf PosInf = NaN"
| "ieee_add NegInf NegInf = NegInf"

text \<open>Division; a zero divisor is taken as the positive zero.\<close>

fun ieee_div :: "ieee \<Rightarrow> ieee \<Rightarrow> ieee" where
  "ieee_div NaN y = NaN"
| "ieee_div (Finite a) NaN = NaN"
| "ieee_div PosInf NaN = NaN"
| "ieee_div NegInf NaN = NaN"
| "ieee_div (Finite a) (Finite b) =
     (if b \<noteq> 0 then Finite (a / b)
      else if a = 0 then NaN else if 0 < a then PosInf else NegInf)"
| "ieee_div (Finite a) PosInf = Finite 0"
| "ieee_div (Finite a) NegInf = Finite 0"
| "ieee_div PosInf (Finite b) = (if 0 \<le> b then PosInf else NegInf)"
| "ieee_div NegInf (Finite b) = (if 0 \<le> b then NegInf else PosInf)"
| "ieee_div PosInf PosInf = NaN"
| "ieee_div PosInf NegInf = NaN"
| "ieee_div NegInf PosInf = NaN"
| "ieee_div NegInf NegInf = NaN"

text \<open>\<^verbatim>\<open>torch.clamp(x, min=m)\<close> on one value: a NaN stays a NaN.\<close>

fun ieee_clamp_min :: "ieee \<Rightarrow> real \<Rightarrow> ieee" where
  "ieee_clamp_min NaN m = NaN"
| "ieee_clamp_min (Finite a) m = Finite (max a m)"
| "ieee_clamp_min PosInf m = PosInf"
| "ieee_clamp_min NegInf m = Finite m"

text \<open>The tensor operations of the branch, on these values.\<close>

definition float3_ieee :: "int tensor3 \<Rightarrow> ieee tensor3" where
  "float3_ieee t =
     mk3 (size0 t) (size1 t) (size2 t) (\<lambda>i j k. Finite (real_of_int (at3 t i j k)))"

definition mul3_ieee :: "ieee tensor3 \<Rightarrow> ieee tensor3 \<Rightarrow> ieee tensor3" where
  "mul3_ieee a b =
     mk3 (size0 a) (size1 a) (size2 a) (\<lambda>i j k. ieee_mul (at3 a i j k) (at3 b i j k))"

definition sum1_ieee :: "ieee tensor3 \<Rightarrow> ieee tensor2" where
  "sum1_ieee t = mk2 (size0 t) (size2 t)
     (\<lambda>i k. foldr ieee_add (map (\<lambda>j. at3 t i j k) [0..<size1 t]) (Finite 0))"

definition clamp_min_ieee :: "ieee tensor2 \<Rightarrow> real \<Rightarrow> ieee tensor2" where
  "clamp_min_ieee t m = mk2 (rows t) (cols t) (\<lambda>i k. ieee_clamp_min (at2 t i k) m)"

definition div2_ieee :: "ieee tensor2 \<Rightarrow> ieee tensor2 \<Rightarrow> ieee tensor2" where
  "div2_ieee a b = mk2 (rows a) (cols a) (\<lambda>i k. ieee_div (at2 a i k) (at2 b i k))"

text \<open>
  The branch itself, as above: the operands of the division, then the quotient.
  \<open>token_embeddings\<close> is \<^verbatim>\<open>model_output.last_hidden_state\<close>.
\<close>

definition mean_operands_ieee ::
  "ieee tensor3 \<Rightarrow> int tensor2 \<Rightarrow> error + (ieee tensor2 \<times> ieee tensor2)" where
  "mean_operands_ieee token_embeddings attention_mask =
     (case expand3 (unsqueeze_last attention_mask) (size0 token_embeddings)
             (size1 token_embeddings) (size2 token_embeddings) of
        Inl e \<Rightarrow> Inl e
      | Inr expanded \<Rightarrow>
          let input_mask_expanded = float3_ieee expanded
          in Inr (sum1_ieee (mul3_ieee token_embeddings input_mask_expanded),
                  clamp_min_ieee (sum1_ieee input_mask_expanded) (1 / 10 ^ 9)))"

definition mean_pool_ieee :: "ieee tensor3 \<Rightarrow> int tensor2 \<Rightarrow> error + ieee tensor2" where
  "mean_pool_ieee token_embeddings attention_mask =
     (case mean_operands_ieee token_embeddings attention_mask of
        Inl e \<Rightarrow> Inl e
      | Inr (numerator, denominator) \<Rightarrow>
          let final_encoding = div2_ieee numerator denominator
          in Inr final_encoding)"

text \<open>
  The method with the encoder type MEAN: the encoder is called, and the branch runs on the
  last hidden state of its output. The encoder is again a parameter; of its output only
  the last hidden state is kept, the one field that the branch reads.
\<close>

definition get_sentence_embeddings_mean_ieee ::
  "(int tensor2 \<Rightarrow> int tensor2 \<Rightarrow> int tensor2 \<Rightarrow> error + ieee tensor3)
     \<Rightarrow> int tensor2 \<Rightarrow> int tensor2 \<Rightarrow> int tensor2 \<Rightarrow> error + ieee tensor2" where
  "get_sentence_embeddings_mean_ieee model input_ids attention_mask token_type_ids =
     (case model input_ids attention_mask token_type_ids of
        Inl e \<Rightarrow> Inl e
      | Inr token_embeddings \<Rightarrow> mean_pool_ieee token_embeddings attention_mask)"

text \<open>A real tensor as a tensor of finite float values.\<close>

definition finite3 :: "real tensor3 \<Rightarrow> ieee tensor3" where
  "finite3 t = mk3 (size0 t) (size1 t) (size2 t) (\<lambda>i j k. Finite (at3 t i j k))"

definition finite2 :: "real tensor2 \<Rightarrow> ieee tensor2" where
  "finite2 t = mk2 (rows t) (cols t) (\<lambda>i k. Finite (at2 t i k))"

section \<open>Construction: \<^verbatim>\<open>BaseModel.__init__\<close>\<close>

text \<open>
  An argument annotated \<^verbatim>\<open>Union[str, E]\<close> with default \<^verbatim>\<open>None\<close>, for an enumeration
  \<^verbatim>\<open>E\<close>.
\<close>

datatype 'e enum_arg = ArgStr string | ArgEnum 'e | ArgNone

text \<open>
  \<^verbatim>\<open>E.from_string(x) if isinstance(x, str) else x\<close>. The enumerations' \<^verbatim>\<open>from_string\<close>
  are defined in \<^verbatim>\<open>utils.base\<close>, outside the source files, and are parameters here.
\<close>

definition enum_of_arg :: "(string \<Rightarrow> error + 'e) \<Rightarrow> 'e enum_arg \<Rightarrow> error + 'e option" where
  "enum_of_arg from_string x =
     (case x of
        ArgStr s \<Rightarrow> (case from_string s of Inl e \<Rightarrow> Inl e | Inr v \<Rightarrow> Inr (Some v))
      | ArgEnum v \<Rightarrow> Inr (Some v)
      | ArgNone \<Rightarrow> Inr None)"

text \<open>\<^verbatim>\<open>list(EncoderType)\<close>.\<close>

definition EncoderType_members :: "EncoderType list" where
  "EncoderType_members = [FIRST_LAST_AVG, LAST_AVG, CLS, POOLER, MEAN]"

text \<open>
  The configuration fields of the object. Its model and tokenizer are external objects and
  are passed to the functions below as parameters; \<^verbatim>\<open>results\<close> and
  \<^verbatim>\<open>model_info_dict\<close> are left out. The enumeration \<^verbatim>\<open>ModelArch\<close> is also
  defined outside the source files: its type is a parameter \<open>'arch\<close>, and
  \<^verbatim>\<open>list(ModelArch)\<close> is passed as \<open>ModelArch_members\<close>.
\<close>

record 'arch BaseModel =
  model_arch :: "'arch option"
  encoder_type :: "EncoderType option"
  device :: string
  model_name_or_path :: "string option"
  num_classes :: int
  max_seq_length :: int

text \<open>
  \<open>detected_device\<close> stands for what the probing of cuda and mps yields when no device
  is passed.
\<close>

definition BaseModel_init ::
  "(string \<Rightarrow> error + 'arch) \<Rightarrow> 'arch list \<Rightarrow> (string \<Rightarrow> error + EncoderType) \<Rightarrow> string
     \<Rightarrow> 'arch enum_arg \<Rightarrow> string option \<Rightarrow> int \<Rightarrow> int \<Rightarrow> EncoderType enum_arg
     \<Rightarrow> string option \<Rightarrow> error + 'arch BaseModel" where
  "BaseModel_init ModelArch_from_string ModelArch_members EncoderType_from_string
      detected_device model_arch_arg name_or_path n_classes max_len encoder_type_arg
      device_arg =
     (case enum_of_arg ModelArch_from_string model_arch_arg of Inl e \<Rightarrow> Inl e
      | Inr arch \<Rightarrow>
          if arch \<notin> set (map Some ModelArch_members) then Inl ValueError
          else
            (case enum_of_arg EncoderType_from_string encoder_type_arg of Inl e \<Rightarrow> Inl e
             | Inr enc \<Rightarrow>
                 if enc \<notin> set (map Some EncoderType_members) \<and> enc \<noteq> None
                 then Inl ValueError
                 else Inr \<lparr> model_arch = arch,
                            encoder_type = enc,
                            device = (case device_arg of None \<Rightarrow> detected_device
                                      | Some d \<Rightarrow> d),
                            model_name_or_path = name_or_path,
                            num_classes = n_classes,
                            max_seq_length = max_len \<rparr>))"

section \<open>Batched encoding: \<^verbatim>\<open>BaseSentenceModel.encode\<close>\<close>

text \<open>
  \<^verbatim>\<open>sentences\<close> is a single string, or a list of strings. Only the number of
  characters of a sentence matters to the code.
\<close>

datatype sentences_arg = Sentence string | Sentences "string list"

text \<open>
  The tokenizer is external: called on a batch of sentences with the maximal sequence
  length (padding and truncation on), it returns the token ids, the attention mask and the
  token type ids, or raises.
\<close>

type_synonym tokenizer =
  "string list \<Rightarrow> int \<Rightarrow> error + (int tensor2 \<times> int tensor2 \<times> int tensor2)"

text \<open>
  One element of a pooled tensor, as iterating over its first dimension yields it: a
  vector when the tensor has two dimensions, a matrix when it has three.
\<close>

datatype row = Row1 "real list" | Row2 "real tensor2"

definition unbind :: "tensor \<Rightarrow> row list" where
  "unbind t =
     (case t of
        T2 m \<Rightarrow> map Row1 (elems2 m)
      | T3 c \<Rightarrow> map (\<lambda>m. Row2 (Tensor2 (size1 c) (size2 c) m)) (elems3 c))"

definition row_shape :: "row \<Rightarrow> nat list" where
  "row_shape r = (case r of Row1 v \<Rightarrow> [length v] | Row2 m \<Rightarrow> [rows m, cols m])"

text \<open>
  What \<^verbatim>\<open>encode\<close> returns: a Python list of torch tensors, an array stacked from the
  rows (a torch tensor or a numpy array), or one row alone.
\<close>

datatype kind = Torch | Numpy

datatype encoded = PyList "row list" | Stacked kind "row list" | One kind row

text \<open>
  \<^verbatim>\<open>torch.stack(rows)\<close> raises RuntimeError on the empty list and on rows of different
  shapes.
\<close>

definition torch_stack :: "row list \<Rightarrow> error + encoded" where
  "torch_stack rs =
     (if rs = [] then Inl RuntimeError
      else if \<exists>r \<in> set rs. row_shape r \<noteq> row_shape (hd rs) then Inl RuntimeError
      else Inr (Stacked Torch rs))"

text \<open>
  \<^verbatim>\<open>np.asarray([emb.numpy() for emb in rows])\<close>: the empty list gives an empty array;
  rows of different shapes are rejected with ValueError (numpy 1.24 and later).
\<close>

definition np_asarray :: "row list \<Rightarrow> error + encoded" where
  "np_asarray rs =
     (if \<exists>r \<in> set rs. row_shape r \<noteq> row_shape (hd rs) then Inl ValueError
      else Inr (Stacked Numpy rs))"

text \<open>\<^verbatim>\<open>all_embeddings[0]\<close>, on each of the three containers.\<close>

definition first_item :: "encoded \<Rightarrow> error + encoded" where
  "first_item x =
     (case x of
        PyList rs \<Rightarrow> (case getitem rs 0 of Inl e \<Rightarrow> Inl e | Inr r \<Rightarrow> Inr (One Torch r))
      | Stacked k rs \<Rightarrow> (case getitem rs 0 of Inl e \<Rightarrow> Inl e | Inr r \<Rightarrow> Inr (One k r))
      | One k r \<Rightarrow> Inl IndexError)"

text \<open>
  \<^verbatim>\<open>[xs[idx] for idx in idxs]\<close> for indices that are not negative: IndexError at the
  first index out of range.
\<close>

fun gather :: "'a list \<Rightarrow> nat list \<Rightarrow> error + 'a list" where
  "gather xs [] = Inr []"
| "gather xs (idx # idxs) =
     (if idx < length xs
      then (case gather xs idxs of Inl e \<Rightarrow> Inl e | Inr ys \<Rightarrow> Inr (xs ! idx # ys))
      else Inl IndexError)"

text \<open>
  \<^verbatim>\<open>np.argsort\<close> is external and a parameter of \<^verbatim>\<open>encode\<close>. Its contract: the result
  is a permutation of the indices that lists the keys in ascending order. Its default
  sorting algorithm is not stable, so the contract says nothing on the order of equal keys.
\<close>

definition is_argsort :: "int list \<Rightarrow> nat list \<Rightarrow> bool" where
  "is_argsort ks p \<longleftrightarrow> sort p = [0..<length ks] \<and> sorted (map (\<lambda>i. ks ! i) p)"

text \<open>An argsort by insertion, which is what numpy runs on short arrays.\<close>

definition insertion_argsort :: "int list \<Rightarrow> nat list" where
  "insertion_argsort ks = map snd (sort_key fst (zip ks [0..<length ks]))"

text \<open>
  One pass of the loop body after slicing: tokenize the batch, pool, and iterate over the
  result as \<^verbatim>\<open>all_embeddings.extend\<close> does. When pooling returned \<^verbatim>\<open>None\<close>,
  \<^verbatim>\<open>embeddings.detach()\<close> raises AttributeError.
\<close>

definition batch_embeddings ::
  "tokenizer \<Rightarrow> encoder \<Rightarrow> EncoderType option \<Rightarrow> int \<Rightarrow> string list \<Rightarrow> error + row list" where
  "batch_embeddings tokenizer model enc max_len sentences_batch =
     (case tokenizer sentences_batch max_len of Inl e \<Rightarrow> Inl e
      | Inr (input_ids, attention_mask, token_type_ids) \<Rightarrow>
          (case get_sentence_embeddings model enc input_ids attention_mask token_type_ids of
             Inl e \<Rightarrow> Inl e
           | Inr None \<Rightarrow> Inl AttributeError
           | Inr (Some embeddings) \<Rightarrow> Inr (unbind embeddings)))"

text \<open>
  The loop \<^verbatim>\<open>for start_index in trange(0, len(sentences), batch_size)\<close> for a positive
  batch size, with \<open>embed_batch\<close> for the loop body.
\<close>

function encode_loop ::
  "(string list \<Rightarrow> error + row list) \<Rightarrow> string list \<Rightarrow> nat \<Rightarrow> nat \<Rightarrow> row list
     \<Rightarrow> error + row list" where
  "encode_loop embed_batch sentences_sorted batch_size start_index all_embeddings =
     (if 0 < batch_size \<and> start_index < length sentences_sorted
      then (case embed_batch (take batch_size (drop start_index sentences_sorted)) of
              Inl e \<Rightarrow> Inl e
            | Inr embeddings \<Rightarrow>
                encode_loop embed_batch sentences_sorted batch_size (start_index + batch_size)
                  (all_embeddings @ embeddings))
      else Inr all_embeddings)"
  by pat_completeness auto
termination
  by (relation "measure (\<lambda>(embed_batch, sentences_sorted, batch_size, start_index, all_embeddings).
        length sentences_sorted - start_index)") auto

declare encode_loop.simps [simp del]

text \<open>
  \<^verbatim>\<open>encode\<close>. A batch size of zero makes \<^verbatim>\<open>range\<close> raise ValueError; with a negative
  one the range is empty and no batch is processed.
\<close>

definition encode ::
  "(int list \<Rightarrow> nat list) \<Rightarrow> tokenizer \<Rightarrow> encoder \<Rightarrow> 'arch BaseModel \<Rightarrow> sentences_arg \<Rightarrow> int
     \<Rightarrow> bool \<Rightarrow> bool \<Rightarrow> error + encoded" where
  "encode argsort tokenizer model self sentences_in batch_size convert_to_numpy_in
      convert_to_tensor =
     (let convert_to_numpy = (if convert_to_tensor then False else convert_to_numpy_in);
          input_is_string = (case sentences_in of Sentence s \<Rightarrow> True | Sentences ss \<Rightarrow> False);
          sentences = (case sentences_in of Sentence s \<Rightarrow> [s] | Sentences ss \<Rightarrow> ss);
          length_sorted_idx = argsort (map (\<lambda>s. - int (length s)) sentences)
      in case gather sentences length_sorted_idx of Inl e \<Rightarrow> Inl e
         | Inr sentences_sorted \<Rightarrow>
             if batch_size = 0 then Inl ValueError
             else
               (case (if batch_size < 0 then Inr []
                      else encode_loop
                             (batch_embeddings tokenizer model (encoder_type self)
                                (max_seq_length self))
                             sentences_sorted (nat batch_size) 0 []) of
                  Inl e \<Rightarrow> Inl e
                | Inr all_embeddings \<Rightarrow>
                    (case gather all_embeddings (argsort (map int length_sorted_idx)) of
                       Inl e \<Rightarrow> Inl e
                     | Inr restored \<Rightarrow>
                         (case (if convert_to_tensor then torch_stack restored
                                else if convert_to_numpy then np_asarray restored
                                else Inr (PyList restored)) of
                            Inl e \<Rightarrow> Inl e
                          | Inr result \<Rightarrow>
                              if input_is_string then first_item result else Inr result))))"

text \<open>
  The result of \<^verbatim>\<open>encode\<close> on a list, in the container that the two flags select.
\<close>

definition sequence_of :: "bool \<Rightarrow> bool \<Rightarrow> row list \<Rightarrow> encoded" where
  "sequence_of convert_to_numpy convert_to_tensor rs =
     (if convert_to_tensor then Stacked Torch rs
      else if convert_to_numpy then Stacked Numpy rs
      else PyList rs)"

text \<open>
  The loop body does its work on a batch: it returns one row per sentence, all rows of
  the shape \<open>sh\<close>.
\<close>

definition good_batch ::
  "(string list \<Rightarrow> error + row list) \<Rightarrow> nat list \<Rightarrow> string list \<Rightarrow> bool" where
  "good_batch embed_batch sh sentences_batch =
     (case embed_batch sentences_batch of
        Inl e \<Rightarrow> False
      | Inr embeddings \<Rightarrow>
          length embeddings = length sentences_batch \<and>
          list_all (\<lambda>r. row_shape r = sh) embeddings)"

section \<open>Evaluation: \<^verbatim>\<open>BaseSentenceModel.evaluate\<close>\<close>

text \<open>
  A Python dict is the list of its items in insertion order; \<^verbatim>\<open>d[key] = value\<close>
  replaces the value of a key that is present and appends a new key.
\<close>

fun dict_set :: "('k \<times> 'v) list \<Rightarrow> 'k \<Rightarrow> 'v \<Rightarrow> ('k \<times> 'v) list" where
  "dict_set [] key v = [(key, v)]"
| "dict_set ((k, w) # d) key v =
     (if k = key then (k, v) # d else (k, w) # dict_set d key v)"

text \<open>
  The text that the loop
  \<^verbatim>\<open>for key in sorted(results.keys()): writer.write("{} = {}\n".format(key, str(results[key])))\<close>
  writes, given the keys still to be visited. \<open>str\<close> stands for Python's \<^verbatim>\<open>str\<close> on
  the values.
\<close>

fun write_lines :: "('v \<Rightarrow> string) \<Rightarrow> (string \<times> 'v) list \<Rightarrow> string list \<Rightarrow> error + string" where
  "write_lines str results [] = Inr []"
| "write_lines str results (key # keys) =
     (case map_of results key of
        None \<Rightarrow> Inl KeyError
      | Some v \<Rightarrow>
          (case write_lines str results keys of Inl e \<Rightarrow> Inl e
           | Inr rest \<Rightarrow> Inr (key @ '' = '' @ str v @ [CHR 0x0A] @ rest)))"

text \<open>\<^verbatim>\<open>t.squeeze(1)\<close>: two dimensions are left when dimension 1 has size one.\<close>

definition squeeze1 :: "'a tensor3 \<Rightarrow> 'a tensor2 option" where
  "squeeze1 t =
     (if size1 t = 1 then Some (mk2 (size0 t) (size2 t) (\<lambda>i k. at3 t i 0 k)) else None)"

text \<open>
  One side of a batch of the evaluation set holds token ids, attention mask and token type
  ids of shape [batch, 1, seq_len]. Each is squeezed and the three are pooled. A tensor
  that keeps its three dimensions is not input that the encoder takes: transformers raise
  ValueError on it.
\<close>

type_synonym tokenized = "int tensor3 \<times> int tensor3 \<times> int tensor3"

definition side_embeddings ::
  "encoder \<Rightarrow> EncoderType option \<Rightarrow> tokenized \<Rightarrow> error + tensor option" where
  "side_embeddings model enc side =
     (case side of (ids3, mask3, types3) \<Rightarrow>
        (case (squeeze1 ids3, squeeze1 mask3, squeeze1 types3) of
           (Some input_ids, Some attention_mask, Some token_type_ids) \<Rightarrow>
             get_sentence_embeddings model enc input_ids attention_mask token_type_ids
         | _ \<Rightarrow> Inl ValueError))"

text \<open>
  The loop over the batches that the data loader yields, each a triple of source side,
  target side and labels. \<^verbatim>\<open>torch.cosine_similarity\<close> is a parameter; it is called on
  what pooling returned, which may be \<^verbatim>\<open>None\<close>.
\<close>

fun eval_batches ::
  "encoder \<Rightarrow> EncoderType option \<Rightarrow> (tensor option \<Rightarrow> tensor option \<Rightarrow> error + real list)
     \<Rightarrow> (tokenized \<times> tokenized \<times> real list) list \<Rightarrow> real list \<Rightarrow> real list
     \<Rightarrow> error + (real list \<times> real list)" where
  "eval_batches model enc cosine_similarity [] batch_labels batch_preds =
     Inr (batch_labels, batch_preds)"
| "eval_batches model enc cosine_similarity ((source, target, labels) # batches)
      batch_labels batch_preds =
     (case side_embeddings model enc source of Inl e \<Rightarrow> Inl e
      | Inr source_embeddings \<Rightarrow>
          (case side_embeddings model enc target of Inl e \<Rightarrow> Inl e
           | Inr target_embeddings \<Rightarrow>
               (case cosine_similarity source_embeddings target_embeddings of
                  Inl e \<Rightarrow> Inl e
                | Inr preds \<Rightarrow>
                    eval_batches model enc cosine_similarity batches
                      (batch_labels @ labels) (batch_preds @ preds))))"

text \<open>
  \<^verbatim>\<open>evaluate\<close> returns the dict of results; the second component is what it wrote, if
  anything: the directory, the file name, and the text of the file. The two correlation
  functions come from \<^verbatim>\<open>utils.base\<close> and are parameters. Creating the directory and
  opening the file are taken to succeed.
\<close>

definition evaluate ::
  "encoder \<Rightarrow> EncoderType option \<Rightarrow> (tensor option \<Rightarrow> tensor option \<Rightarrow> error + real list)
     \<Rightarrow> (real list \<Rightarrow> real list \<Rightarrow> error + 'v) \<Rightarrow> (real list \<Rightarrow> real list \<Rightarrow> error + 'v)
     \<Rightarrow> ('v \<Rightarrow> string) \<Rightarrow> (tokenized \<times> tokenized \<times> real list) list \<Rightarrow> string option
     \<Rightarrow> error + ((string \<times> 'v) list \<times> (string \<times> string \<times> string) option)" where
  "evaluate model enc cosine_similarity compute_spearmanr compute_pearsonr str
      eval_dataloader output_dir =
     (case eval_batches model enc cosine_similarity eval_dataloader [] [] of
        Inl e \<Rightarrow> Inl e
      | Inr (batch_labels, batch_preds) \<Rightarrow>
          (case compute_spearmanr batch_labels batch_preds of Inl e \<Rightarrow> Inl e
           | Inr spearman \<Rightarrow>
               (case compute_pearsonr batch_labels batch_preds of Inl e \<Rightarrow> Inl e
                | Inr pearson \<Rightarrow>
                    (let results =
                           dict_set (dict_set [] ''eval_spearman'' spearman)
                             ''eval_pearson'' pearson
                     in case output_dir of
                          None \<Rightarrow> Inr (results, None)
                        | Some dir \<Rightarrow>
                            if dir = [] then Inr (results, None)
                            else
                              (case write_lines str results (sort (map fst results)) of
                                 Inl e \<Rightarrow> Inl e
                               | Inr written \<Rightarrow>
                                   Inr (results,
                                        Some (dir, ''eval_results.txt'', written)))))))"

section \<open>A small concrete encoder\<close>

text \<open>
  A tokenizer and an encoder small enough to evaluate, for the concrete instances of the
  theorems below. The tokenizer maps every character to its code and pads the batch with
  zeros to its longest sentence; the encoder has hidden size one and two layers, and layer
  \<open>n\<close> holds at each position the token id plus \<open>n\<close> (the embedding layer is layer 0).
\<close>

definition demo_tokenizer :: tokenizer where
  "demo_tokenizer sentences_batch max_len =
     (let b = length sentences_batch;
          s = foldr (\<lambda>x m. max (length x) m) sentences_batch 0
      in Inr (mk2 b s (\<lambda>i j. if j < length (sentences_batch ! i)
                              then int (of_char (sentences_batch ! i ! j)) else 0),
              mk2 b s (\<lambda>i j. if j < length (sentences_batch ! i) then 1 else 0),
              mk2 b s (\<lambda>i j. 0)))"

definition demo_model :: encoder where
  "demo_model input_ids attention_mask token_type_ids =
     (let layer = (\<lambda>n. mk3 (rows input_ids) (cols input_ids) 1
                    (\<lambda>i j k. real_of_int (at2 input_ids i j + n)))
      in Inr \<lparr> hidden_states = [layer 0, layer 1, layer 2],
               last_hidden_state = layer 2,
               pooler_output = None \<rparr>)"

definition demo_self :: "EncoderType option \<Rightarrow> unit BaseModel" where
  "demo_self enc =
     \<lparr> model_arch = Some (), encoder_type = enc, device = ''cpu'',
       model_name_or_path = None, num_classes = 2, max_seq_length = 128 \<rparr>"

section \<open>Tensor lemmas\<close>

lemma size_mk3 [simp]:
  "size0 (mk3 b s h f) = b" "size1 (mk3 b s h f) = s" "size2 (mk3 b s h f) = h"
  by (simp_all add: mk3_def)

lemma size_mk2 [simp]: "rows (mk2 b h f) = b" "cols (mk2 b h f) = h"
  by (simp_all add: mk2_def)

lemma at3_mk3: "i < b \<Longrightarrow> j < s \<Longrightarrow> k < h \<Longrightarrow> at3 (mk3 b s h f) i j k = f i j k"
  by (simp add: mk3_def at3_def)

lemma at2_mk2: "i < b \<Longrightarrow> k < h \<Longrightarrow> at2 (mk2 b h f) i k = f i k"
  by (simp add: mk2_def at2_def)

lemma mk2_cong: "(\<And>i k. i < b \<Longrightarrow> k < h \<Longrightarrow> f i k = g i k) \<Longrightarrow> mk2 b h f = mk2 b h g"
  by (simp add: mk2_def)

lemma sum_list_upt_cong:
  "(\<And>j. j < n \<Longrightarrow> f j = g j) \<Longrightarrow> (\<Sum>j \<leftarrow> [0..<n]. f j) = (\<Sum>j \<leftarrow> [0..<n]. (g j :: real))"
  by (rule arg_cong [where f = sum_list]) simp

lemma elems2_mk2_nth: "i < b \<Longrightarrow> elems2 (mk2 b h f) ! i = map (f i) [0..<h]"
  by (simp add: mk2_def)

lemma size_seq_mean [simp]: "rows (seq_mean t) = size0 t" "cols (seq_mean t) = size2 t"
  by (simp_all add: seq_mean_def)

lemma size_unsqueeze1 [simp]:
  "size0 (unsqueeze1 t) = rows t" "size1 (unsqueeze1 t) = 1" "size2 (unsqueeze1 t) = cols t"
  by (simp_all add: unsqueeze1_def)

lemma size_unsqueeze_last [simp]:
  "size0 (unsqueeze_last t) = rows t" "size1 (unsqueeze_last t) = cols t"
  "size2 (unsqueeze_last t) = 1"
  by (simp_all add: unsqueeze_last_def)

lemma at3_unsqueeze1: "i < rows t \<Longrightarrow> k < cols t \<Longrightarrow> at3 (unsqueeze1 t) i 0 k = at2 t i k"
  by (simp add: unsqueeze1_def at3_mk3)

lemma getitem_1: "2 \<le> length xs \<Longrightarrow> getitem xs 1 = Inr (xs ! 1)"
  by (simp add: getitem_def)

lemma getitem_last: "xs \<noteq> [] \<Longrightarrow> getitem xs (- 1) = Inr (last xs)"
proof -
  assume ne: "xs \<noteq> []"
  then have len: "0 < length xs" by simp
  then have "nat (int (length xs) + - 1) = length xs - 1" by linarith
  moreover have "- int (length xs) \<le> - 1" using len by linarith
  ultimately show ?thesis using ne by (simp add: getitem_def last_conv_nth)
qed

section \<open>Pooling lemmas\<close>

text \<open>
  Pooling with the sequence length as kernel, after the transposition, leaves one window:
  the mean over the sequence dimension.
\<close>

lemma pool_seq:
  assumes "0 < size1 t"
  shows "\<exists>p. avg_pool1d (transpose12 t) (size1 t) = Inr p \<and> squeeze_last p = T2 (seq_mean t)"
proof -
  let ?k = "size1 t"
  let ?p = "mk3 (size0 t) (size2 t) 1
     (\<lambda>i c j. (\<Sum>u \<leftarrow> [0..<?k]. at3 (transpose12 t) i c (j * ?k + u)) / real ?k)"
  have 1: "avg_pool1d (transpose12 t) ?k = Inr ?p"
    using assms by (simp add: avg_pool1d_def transpose12_def)
  have 2: "squeeze_last ?p = T2 (seq_mean t)"
    unfolding squeeze_last_def seq_mean_def using assms
    by (auto simp: at3_mk3 transpose12_def
        intro!: mk2_cong sum_list_upt_cong arg_cong2 [where f = "(/)"])
  show ?thesis using 1 2 by blast
qed

lemma cat1_pair:
  assumes "rows a = rows b" "cols a = cols b"
  shows "\<exists>c. cat1 (unsqueeze1 a) (unsqueeze1 b) = Inr c \<and> shape3 c = (rows a, 2, cols a)
     \<and> (\<forall>i < rows a. \<forall>k < cols a.
           at3 c i 0 k = at2 a i k \<and> at3 c i (Suc 0) k = at2 b i k)"
  using assms by (simp add: cat1_def shape3_def at3_mk3 at3_unsqueeze1)

lemma pair_avg:
  assumes "rows a = rows b" "cols a = cols b"
  shows "\<exists>c p. cat1 (unsqueeze1 a) (unsqueeze1 b) = Inr c
     \<and> avg_pool1d (transpose12 c) 2 = Inr p
     \<and> squeeze_last p = T2 (mk2 (rows a) (cols a) (\<lambda>i k. (at2 a i k + at2 b i k) / 2))"
proof -
  obtain c where c: "cat1 (unsqueeze1 a) (unsqueeze1 b) = Inr c"
    and sz: "size0 c = rows a" "size1 c = 2" "size2 c = cols a"
    and at: "\<And>i k. i < rows a \<Longrightarrow> k < cols a \<Longrightarrow>
               at3 c i 0 k = at2 a i k \<and> at3 c i (Suc 0) k = at2 b i k"
    using cat1_pair [OF assms] by (auto simp: shape3_def)
  let ?p = "mk3 (rows a) (cols a) 1
     (\<lambda>i d j. (\<Sum>u \<leftarrow> [0..<2]. at3 (transpose12 c) i d (j * 2 + u)) / real 2)"
  have 2: "avg_pool1d (transpose12 c) 2 = Inr ?p"
    by (simp add: avg_pool1d_def transpose12_def sz)
  have upt2: "[0..<2] = [0, Suc 0]" by (simp add: upt_rec)
  have 3: "squeeze_last ?p = T2 (mk2 (rows a) (cols a) (\<lambda>i k. (at2 a i k + at2 b i k) / 2))"
    unfolding squeeze_last_def
    by (auto simp: at3_mk3 transpose12_def sz upt2 at intro!: mk2_cong)
  show ?thesis using c 2 3 by blast
qed

lemma first_last_avg_eq:
  assumes "well_shaped out b s h" "0 < s"
  shows "first_last_avg out = Inr (Some (T2 (mk2 b h
     (\<lambda>i k. (at2 (seq_mean (hidden_states out ! 1)) i k
             + at2 (seq_mean (last (hidden_states out))) i k) / 2))))"
proof -
  define f where "f = hidden_states out ! 1"
  define l where "l = last (hidden_states out)"
  from assms have len: "2 \<le> length (hidden_states out)"
    and f: "size0 f = b" "size1 f = s" "size2 f = h"
    and l: "size0 l = b" "size1 l = s" "size2 l = h"
    by (simp_all add: well_shaped_def shape3_def f_def l_def)
  from len have ne: "hidden_states out \<noteq> []" by auto
  have posf: "0 < size1 f" and posl: "0 < size1 l" and eq: "size1 l = size1 f"
    using assms(2) f(2) l(2) by simp_all
  obtain fp where fp: "avg_pool1d (transpose12 f) (size1 f) = Inr fp"
    "squeeze_last fp = T2 (seq_mean f)"
    using pool_seq [OF posf] by blast
  obtain lp where lp: "avg_pool1d (transpose12 l) (size1 f) = Inr lp"
    "squeeze_last lp = T2 (seq_mean l)"
    using pool_seq [OF posl] unfolding eq by blast
  have "rows (seq_mean f) = rows (seq_mean l)" "cols (seq_mean f) = cols (seq_mean l)"
    by (simp_all add: f l)
  from pair_avg [OF this]
  obtain c p where c: "cat1 (unsqueeze1 (seq_mean f)) (unsqueeze1 (seq_mean l)) = Inr c"
    and p: "avg_pool1d (transpose12 c) 2 = Inr p"
    and sp: "squeeze_last p = T2 (mk2 (rows (seq_mean f)) (cols (seq_mean f))
       (\<lambda>i k. (at2 (seq_mean f) i k + at2 (seq_mean l) i k) / 2))"
    by blast
  have sp': "squeeze_last p = T2 (mk2 b h
       (\<lambda>i k. (at2 (seq_mean f) i k + at2 (seq_mean l) i k) / 2))"
    using sp by (simp only: size_seq_mean f)
  have g1: "getitem (hidden_states out) 1 = Inr f"
    unfolding f_def by (rule getitem_1 [OF len])
  have g2: "getitem (hidden_states out) (- 1) = Inr l"
    unfolding l_def by (rule getitem_last [OF ne])
  have "first_last_avg out = Inr (Some (T2 (mk2 b h
       (\<lambda>i k. (at2 (seq_mean f) i k + at2 (seq_mean l) i k) / 2))))"
    unfolding first_last_avg_def g1 g2 Let_def
    by (simp only: sum.case fp lp prod.case tensor.case c p sp')
  then show ?thesis by (simp only: f_def l_def)
qed

lemma last_avg_eq:
  assumes "0 < size1 (last_hidden_state out)"
  shows "last_avg out = Inr (Some (T2 (seq_mean (last_hidden_state out))))"
proof -
  obtain p where
    "avg_pool1d (transpose12 (last_hidden_state out)) (size1 (last_hidden_state out)) = Inr p"
    "squeeze_last p = T2 (seq_mean (last_hidden_state out))"
    using pool_seq [OF assms] by blast
  then show ?thesis by (simp add: last_avg_def Let_def)
qed

text \<open>On a well-formed tensor, position 0 of every sentence is the head of its rows.\<close>

lemma wf3_select0:
  assumes "wf3 t" "0 < size1 t"
  shows "mk2 (size0 t) (size2 t) (\<lambda>i k. at3 t i 0 k)
     = Tensor2 (size0 t) (size2 t) (map (\<lambda>m. m ! 0) (elems3 t))"
proof -
  have "map (\<lambda>i. map (\<lambda>k. at3 t i 0 k) [0..<size2 t]) [0..<size0 t]
      = map (\<lambda>m. m ! 0) (elems3 t)"
  proof (rule nth_equalityI)
    show "length (map (\<lambda>i. map (\<lambda>k. at3 t i 0 k) [0..<size2 t]) [0..<size0 t])
       = length (map (\<lambda>m. m ! 0) (elems3 t))"
      using assms by (simp add: wf3_def)
  next
    fix i assume "i < length (map (\<lambda>i. map (\<lambda>k. at3 t i 0 k) [0..<size2 t]) [0..<size0 t])"
    then have i: "i < size0 t" by simp
    then have m: "elems3 t ! i \<in> set (elems3 t)" using assms by (simp add: wf3_def)
    then have lm: "length (elems3 t ! i) = size1 t" using assms by (simp add: wf3_def)
    then have "elems3 t ! i ! 0 \<in> set (elems3 t ! i)" using assms by simp
    then have lv: "length (elems3 t ! i ! 0) = size2 t" using assms m by (simp add: wf3_def)
    have "map (\<lambda>k. at3 t i 0 k) [0..<size2 t] = elems3 t ! i ! 0"
      by (rule nth_equalityI) (simp_all add: lv at3_def)
    then show "map (\<lambda>i. map (\<lambda>k. at3 t i 0 k) [0..<size2 t]) [0..<size0 t] ! i
       = map (\<lambda>m. m ! 0) (elems3 t) ! i"
      using i assms by (simp add: wf3_def)
  qed
  then show ?thesis by (simp add: mk2_def)
qed

lemma cls_eq:
  assumes "wf3 (last_hidden_state out)" "0 < size1 (last_hidden_state out)"
  shows "cls out = Inr (Some (T2 (Tensor2 (size0 (last_hidden_state out))
     (size2 (last_hidden_state out)) (map (\<lambda>m. m ! 0) (elems3 (last_hidden_state out))))))"
  using assms by (simp add: cls_def Let_def select0_def wf3_select0)

text \<open>The mask, expanded to the shape of the token embeddings, repeats each of its entries
  along the hidden dimension.\<close>

lemma expand_mask:
  assumes "rows m = b" "cols m = s"
  shows "\<exists>e. expand3 (unsqueeze_last m) b s h = Inr e
     \<and> size0 e = b \<and> size1 e = s \<and> size2 e = h
     \<and> (\<forall>i < b. \<forall>j < s. \<forall>k < h. at3 e i j k = at2 m i j)"
proof -
  have "at3 (unsqueeze_last m) (if rows m = 1 then 0 else i) (if cols m = 1 then 0 else j) 0
       = at2 m i j" if "i < b" "j < s" for i j
  proof -
    have i: "(if rows m = 1 then 0 else i) = i" using that assms by auto
    have j: "(if cols m = 1 then 0 else j) = j" using that assms by auto
    show ?thesis unfolding i j using that assms by (simp add: unsqueeze_last_def at3_mk3)
  qed
  then show ?thesis using assms by (simp add: expand3_def at3_mk3)
qed

text \<open>
  The operands of MEAN's division: the masked sums, and the clamped counts, which are at
  least \<open>1e-9\<close>.
\<close>

lemma mean_operands_eq:
  assumes "rows m = size0 (last_hidden_state out)" "cols m = size1 (last_hidden_state out)"
  shows "\<exists>num den. mean_operands out m = Inr (num, den)
     \<and> num = mk2 (size0 (last_hidden_state out)) (size2 (last_hidden_state out))
         (\<lambda>i k. \<Sum>j \<leftarrow> [0..<size1 (last_hidden_state out)].
                   at3 (last_hidden_state out) i j k * real_of_int (at2 m i j))
     \<and> den = mk2 (size0 (last_hidden_state out)) (size2 (last_hidden_state out))
         (\<lambda>i k. max (\<Sum>j \<leftarrow> [0..<size1 (last_hidden_state out)]. real_of_int (at2 m i j))
                   (1 / 10 ^ 9))"
proof -
  define t where "t = last_hidden_state out"
  obtain e where e: "expand3 (unsqueeze_last m) (size0 t) (size1 t) (size2 t) = Inr e"
    and sz: "size0 e = size0 t" "size1 e = size1 t" "size2 e = size2 t"
    and at: "\<And>i j k. i < size0 t \<Longrightarrow> j < size1 t \<Longrightarrow> k < size2 t \<Longrightarrow> at3 e i j k = at2 m i j"
    using expand_mask [of m "size0 t" "size1 t" "size2 t"] assms unfolding t_def by blast
  have 1: "sum1 (mul3 t (float3 e)) = mk2 (size0 t) (size2 t)
         (\<lambda>i k. \<Sum>j \<leftarrow> [0..<size1 t]. at3 t i j k * real_of_int (at2 m i j))"
    by (auto simp: sum1_def mul3_def float3_def sz at3_mk3 at
        intro!: mk2_cong sum_list_upt_cong)
  have 2: "clamp_min (sum1 (float3 e)) (1 / 10 ^ 9) = mk2 (size0 t) (size2 t)
         (\<lambda>i k. max (\<Sum>j \<leftarrow> [0..<size1 t]. real_of_int (at2 m i j)) (1 / 10 ^ 9))"
    by (auto simp: sum1_def float3_def clamp_min_def sz at2_mk2 at3_mk3 at
        intro!: mk2_cong sum_list_upt_cong arg_cong2 [where f = max])
  show ?thesis
    unfolding mean_operands_def Let_def t_def [symmetric] by (simp only: e sum.case 1 2) simp
qed

lemma mean_pool_eq:
  assumes "rows m = size0 (last_hidden_state out)" "cols m = size1 (last_hidden_state out)"
  shows "mean_pool out m = Inr (Some (T2 (masked_mean (last_hidden_state out) m)))"
proof -
  define t where "t = last_hidden_state out"
  obtain num den where nd: "mean_operands out m = Inr (num, den)"
    and num: "num = mk2 (size0 t) (size2 t)
         (\<lambda>i k. \<Sum>j \<leftarrow> [0..<size1 t]. at3 t i j k * real_of_int (at2 m i j))"
    and den: "den = mk2 (size0 t) (size2 t)
         (\<lambda>i k. max (\<Sum>j \<leftarrow> [0..<size1 t]. real_of_int (at2 m i j)) (1 / 10 ^ 9))"
    using mean_operands_eq [OF assms] unfolding t_def by blast
  have "div2 num den = masked_mean t m"
    unfolding div2_def masked_mean_def num den
    by (auto simp: at2_mk2 intro!: mk2_cong)
  then show ?thesis
    unfolding mean_pool_def t_def [symmetric] by (simp add: nd)
qed

lemma masked_mean_ones:
  assumes "i < size0 t" "0 < size1 t" "\<forall>j < size1 t. at2 m i j = 1"
  shows "elems2 (masked_mean t m) ! i = elems2 (seq_mean t) ! i"
proof -
  have 1: "(\<Sum>j \<leftarrow> [0..<size1 t]. at3 t i j k * real_of_int (at2 m i j))
      = (\<Sum>j \<leftarrow> [0..<size1 t]. at3 t i j k)" for k
    by (rule sum_list_upt_cong) (simp add: assms)
  have "(\<Sum>j \<leftarrow> [0..<size1 t]. real_of_int (at2 m i j)) = (\<Sum>j \<leftarrow> [0..<size1 t]. 1)"
    by (rule sum_list_upt_cong) (simp add: assms)
  also have "\<dots> = real (size1 t)" by (simp add: sum_list_triv)
  finally have 2: "(\<Sum>j \<leftarrow> [0..<size1 t]. real_of_int (at2 m i j)) = real (size1 t)" .
  have "(1::real) / 10 ^ 9 \<le> 1" by simp
  also have "1 \<le> real (size1 t)" using assms(2) by simp
  finally have 3: "max (real (size1 t)) (1 / 10 ^ 9) = real (size1 t)" by (simp add: max_def)
  show ?thesis
    using assms(1) 3 by (simp add: masked_mean_def seq_mean_def elems2_mk2_nth 1 2)
qed


section \<open>The concrete encoder, evaluated\<close>

lemma upt_2: "[0..<2] = [0, Suc 0]"
  by (simp add: upt_rec)

lemma upt_3: "[0..<3] = [0, Suc 0, Suc (Suc 0)]"
  by (simp add: upt_rec)

lemma demo_model_two:
  "demo_model (Tensor2 2 2 [[7, 9], [4, 0]]) m tt =
     Inr \<lparr> hidden_states = [Tensor3 2 2 1 [[[7], [9]], [[4], [0]]],
                              Tensor3 2 2 1 [[[8], [10]], [[5], [1]]],
                              Tensor3 2 2 1 [[[9], [11]], [[6], [2]]]],
           last_hidden_state = Tensor3 2 2 1 [[[9], [11]], [[6], [2]]],
           pooler_output = None \<rparr>"
  by (simp add: demo_model_def Let_def mk3_def at2_def upt_2)

section \<open>Pooling theorems\<close>

text \<open>
  C3. Under FIRST_LAST_AVG, when the encoder returns at least two layers of one shape
  [b, s, h] with a sequence that is not empty, pooling returns the tensor of shape [b, h]
  whose entry for sentence \<open>i\<close> and component \<open>k\<close> is the average of two numbers: the
  mean over the sequence dimension of the first transformer layer (index 1 of the hidden
  states; index 0 is the embedding layer), and the mean over the sequence dimension of
  the last layer.
\<close>

theorem first_last_avg_is_mean_of_layer_means:
  assumes "model input_ids attention_mask token_type_ids = Inr out"
    and "well_shaped out b s h"
    and "0 < s"
  shows "get_sentence_embeddings model (Some FIRST_LAST_AVG) input_ids attention_mask
           token_type_ids
     = Inr (Some (T2 (mk2 b h
         (\<lambda>i k. (at2 (seq_mean (hidden_states out ! 1)) i k
                 + at2 (seq_mean (last (hidden_states out))) i k) / 2))))"
  using assms by (simp add: get_sentence_embeddings_def first_last_avg_eq)

theorem first_last_avg_witness:
  "get_sentence_embeddings demo_model (Some FIRST_LAST_AVG) (Tensor2 2 2 [[7, 9], [4, 0]])
       (Tensor2 2 2 [[1, 1], [1, 0]]) (Tensor2 2 2 [[0, 0], [0, 0]])
     = Inr (Some (T2 (Tensor2 2 1 [[19 / 2], [7 / 2]])))"
proof -
  let ?e = "Tensor3 2 2 1 [[[7], [9]], [[4], [0]]] :: real tensor3"
  let ?f = "Tensor3 2 2 1 [[[8], [10]], [[5], [1]]] :: real tensor3"
  let ?t = "Tensor3 2 2 1 [[[9], [11]], [[6], [2]]] :: real tensor3"
  let ?out = "\<lparr> hidden_states = [?e, ?f, ?t], last_hidden_state = ?t,
                  pooler_output = None \<rparr>"
  have ws: "well_shaped ?out 2 2 1"
    by (simp add: well_shaped_def shape3_def)
  have "mk2 2 1 (\<lambda>i k. (at2 (seq_mean (hidden_states ?out ! 1)) i k
                 + at2 (seq_mean (last (hidden_states ?out))) i k) / 2)
      = Tensor2 2 1 [[19 / 2], [7 / 2]]"
    by (simp add: mk2_def seq_mean_def at2_def at3_def upt_2)
  then show ?thesis
    using first_last_avg_is_mean_of_layer_means
      [of demo_model "Tensor2 2 2 [[7, 9], [4, 0]]" "Tensor2 2 2 [[1, 1], [1, 0]]"
          "Tensor2 2 2 [[0, 0], [0, 0]]" ?out 2 2 1, OF demo_model_two ws]
    by simp
qed

text \<open>
  C4. Under CLS, when the encoder's last hidden state is a well-formed tensor with a
  sequence that is not empty, pooling returns, for every sentence of the batch, exactly the
  vector at the first token position of the last hidden state: nothing is averaged.
\<close>

theorem cls_is_first_position:
  assumes "model input_ids attention_mask token_type_ids = Inr out"
    and "wf3 (last_hidden_state out)"
    and "0 < size1 (last_hidden_state out)"
  shows "get_sentence_embeddings model (Some CLS) input_ids attention_mask token_type_ids
     = Inr (Some (T2 (Tensor2 (size0 (last_hidden_state out)) (size2 (last_hidden_state out))
         (map (\<lambda>sentence. sentence ! 0) (elems3 (last_hidden_state out))))))"
  using assms by (simp add: get_sentence_embeddings_def cls_eq)

theorem cls_witness:
  "get_sentence_embeddings demo_model (Some CLS) (Tensor2 2 2 [[7, 9], [4, 0]])
       (Tensor2 2 2 [[1, 1], [1, 0]]) (Tensor2 2 2 [[0, 0], [0, 0]])
     = Inr (Some (T2 (Tensor2 2 1 [[9], [6]])))"
proof -
  let ?e = "Tensor3 2 2 1 [[[7], [9]], [[4], [0]]] :: real tensor3"
  let ?f = "Tensor3 2 2 1 [[[8], [10]], [[5], [1]]] :: real tensor3"
  let ?t = "Tensor3 2 2 1 [[[9], [11]], [[6], [2]]] :: real tensor3"
  let ?out = "\<lparr> hidden_states = [?e, ?f, ?t], last_hidden_state = ?t,
                  pooler_output = None \<rparr>"
  have wf: "wf3 (last_hidden_state ?out)" by (simp add: wf3_def)
  have pos: "0 < size1 (last_hidden_state ?out)" by simp
  show ?thesis
    using cls_is_first_position
      [of demo_model "Tensor2 2 2 [[7, 9], [4, 0]]" "Tensor2 2 2 [[1, 1], [1, 0]]"
          "Tensor2 2 2 [[0, 0], [0, 0]]" ?out, OF demo_model_two wf pos]
    by simp
qed

text \<open>
  C2. For a sentence \<open>i\<close> whose attention mask is one at every position, in a batch whose
  mask has the shape [b, s] of the token embeddings and whose sequence is not empty: LAST_AVG
  returns the unweighted mean over the sequence dimension, MEAN returns a tensor as well,
  and the two rows for sentence \<open>i\<close> are equal. Arithmetic is that of the reals.
\<close>

theorem mean_equals_last_avg_without_padding:
  assumes "model input_ids attention_mask token_type_ids = Inr out"
    and "rows attention_mask = size0 (last_hidden_state out)"
    and "cols attention_mask = size1 (last_hidden_state out)"
    and "0 < size1 (last_hidden_state out)"
    and "i < size0 (last_hidden_state out)"
    and "\<forall>j < size1 (last_hidden_state out). at2 attention_mask i j = 1"
  shows "\<exists>mean_out last_avg_out.
       get_sentence_embeddings model (Some MEAN) input_ids attention_mask token_type_ids
         = Inr (Some (T2 mean_out))
     \<and> get_sentence_embeddings model (Some LAST_AVG) input_ids attention_mask token_type_ids
         = Inr (Some (T2 last_avg_out))
     \<and> last_avg_out = seq_mean (last_hidden_state out)
     \<and> elems2 mean_out ! i = elems2 last_avg_out ! i"
  using assms
  by (simp add: get_sentence_embeddings_def mean_pool_eq last_avg_eq masked_mean_ones)

theorem mean_equals_last_avg_witness:
  "\<exists>mean_out last_avg_out.
       get_sentence_embeddings demo_model (Some MEAN) (Tensor2 2 2 [[7, 9], [4, 0]])
         (Tensor2 2 2 [[1, 1], [1, 0]]) (Tensor2 2 2 [[0, 0], [0, 0]])
         = Inr (Some (T2 mean_out))
     \<and> get_sentence_embeddings demo_model (Some LAST_AVG) (Tensor2 2 2 [[7, 9], [4, 0]])
         (Tensor2 2 2 [[1, 1], [1, 0]]) (Tensor2 2 2 [[0, 0], [0, 0]])
         = Inr (Some (T2 last_avg_out))
     \<and> last_avg_out = Tensor2 2 1 [[10], [4]]
     \<and> elems2 mean_out ! 0 = [10]"
proof -
  let ?e = "Tensor3 2 2 1 [[[7], [9]], [[4], [0]]] :: real tensor3"
  let ?f = "Tensor3 2 2 1 [[[8], [10]], [[5], [1]]] :: real tensor3"
  let ?t = "Tensor3 2 2 1 [[[9], [11]], [[6], [2]]] :: real tensor3"
  let ?out = "\<lparr> hidden_states = [?e, ?f, ?t], last_hidden_state = ?t,
                  pooler_output = None \<rparr>"
  let ?m = "Tensor2 2 2 [[1, 1], [1, 0]] :: int tensor2"
  have ones: "\<forall>j < size1 (last_hidden_state ?out). at2 ?m 0 j = 1"
    by (simp add: at2_def less_Suc_eq numeral_2_eq_2)
  have sm: "seq_mean (Tensor3 2 2 (Suc 0) [[[9], [11]], [[6], [2]]])
      = Tensor2 2 (Suc 0) [[10], [4]]"
    by (simp add: mk2_def seq_mean_def at3_def upt_2)
  show ?thesis
    using mean_equals_last_avg_without_padding
      [of demo_model "Tensor2 2 2 [[7, 9], [4, 0]]" ?m "Tensor2 2 2 [[0, 0], [0, 0]]" ?out 0,
       OF demo_model_two] ones
    by (simp add: sm)
qed


lemma demo_model_one:
  "demo_model (Tensor2 1 3 [[5, 6, 7]]) m tt =
     Inr \<lparr> hidden_states = [Tensor3 1 3 1 [[[5], [6], [7]]],
                              Tensor3 1 3 1 [[[6], [7], [8]]],
                              Tensor3 1 3 1 [[[7], [8], [9]]]],
           last_hidden_state = Tensor3 1 3 1 [[[7], [8], [9]]],
           pooler_output = None \<rparr>"
  by (simp add: demo_model_def Let_def mk3_def at2_def upt_3)

text \<open>
  The divisors of MEAN: every one is at least the floor \<open>1e-9\<close>, and for a sentence whose
  mask is all zeros divisor and dividend are the floor and zero.
\<close>

lemma mean_divisors:
  assumes "rows m = size0 (last_hidden_state out)" "cols m = size1 (last_hidden_state out)"
  shows "\<exists>num den. mean_operands out m = Inr (num, den)
     \<and> mean_pool out m = Inr (Some (T2 (div2 num den)))
     \<and> (\<forall>i < size0 (last_hidden_state out). \<forall>k < size2 (last_hidden_state out).
           1 / 10 ^ 9 \<le> at2 den i k)
     \<and> (\<forall>i < size0 (last_hidden_state out).
           (\<forall>j < size1 (last_hidden_state out). at2 m i j = 0) \<longrightarrow>
           (\<forall>k < size2 (last_hidden_state out).
              at2 den i k = 1 / 10 ^ 9 \<and> at2 num i k = 0))"
proof -
  define t where "t = last_hidden_state out"
  obtain num den where nd: "mean_operands out m = Inr (num, den)"
    and num: "num = mk2 (size0 t) (size2 t)
         (\<lambda>i k. \<Sum>j \<leftarrow> [0..<size1 t]. at3 t i j k * real_of_int (at2 m i j))"
    and den: "den = mk2 (size0 t) (size2 t)
         (\<lambda>i k. max (\<Sum>j \<leftarrow> [0..<size1 t]. real_of_int (at2 m i j)) (1 / 10 ^ 9))"
    using mean_operands_eq [OF assms] unfolding t_def by blast
  have pool: "mean_pool out m = Inr (Some (T2 (div2 num den)))"
    by (simp add: mean_pool_def nd)
  have floor: "\<forall>i < size0 t. \<forall>k < size2 t. 1 / 10 ^ 9 \<le> at2 den i k"
    by (simp add: den at2_mk2)
  have zero: "\<forall>k < size2 t. at2 den i k = 1 / 10 ^ 9 \<and> at2 num i k = 0"
    if i: "i < size0 t" and z: "\<forall>j < size1 t. at2 m i j = 0" for i
  proof -
    have s0: "(\<Sum>j \<leftarrow> [0..<size1 t]. real_of_int (at2 m i j)) = 0"
    proof -
      have "(\<Sum>j \<leftarrow> [0..<size1 t]. real_of_int (at2 m i j)) = (\<Sum>j \<leftarrow> [0..<size1 t]. 0)"
        by (rule sum_list_upt_cong) (simp add: z)
      then show ?thesis by simp
    qed
    have n0: "(\<Sum>j \<leftarrow> [0..<size1 t]. at3 t i j k * real_of_int (at2 m i j)) = 0" for k
    proof -
      have "(\<Sum>j \<leftarrow> [0..<size1 t]. at3 t i j k * real_of_int (at2 m i j))
          = (\<Sum>j \<leftarrow> [0..<size1 t]. 0)"
        by (rule sum_list_upt_cong) (simp add: z)
      then show ?thesis by simp
    qed
    show ?thesis using i by (simp add: num den at2_mk2 s0 n0)
  qed
  show ?thesis
    using nd pool floor zero unfolding t_def by blast
qed

text \<open>
  C6, as the code has it. For every input where some sentence \<open>i\<close> has an attention mask of
  all zeros, pooling does not fail: when the encoder returns an output of at least two layers
  of shape [b, s, h] with a sequence that is not empty, and the mask has shape [b, s], the
  method returns its result under every setting of the encoder type. The code has no check
  of the mask; only MEAN reads it, and there the floor keeps the division defined: every
  divisor is at least \<open>1e-9\<close>, and the divisors of sentence \<open>i\<close> are the floor itself.
\<close>

theorem all_zero_mask_is_not_rejected:
  assumes "model input_ids attention_mask token_type_ids = Inr out"
    and "well_shaped out b s h"
    and "0 < s"
    and "rows attention_mask = b"
    and "cols attention_mask = s"
    and "i < b"
    and "\<forall>j < s. at2 attention_mask i j = 0"
  shows "(\<exists>result.
       get_sentence_embeddings model enc input_ids attention_mask token_type_ids = Inr result)
     \<and> (\<exists>numerator denominator.
           mean_operands out attention_mask = Inr (numerator, denominator)
         \<and> get_sentence_embeddings model (Some MEAN) input_ids attention_mask token_type_ids
             = Inr (Some (T2 (div2 numerator denominator)))
         \<and> (\<forall>i' < b. \<forall>k < h. 1 / 10 ^ 9 \<le> at2 denominator i' k)
         \<and> (\<forall>k < h. at2 denominator i k = 1 / 10 ^ 9))"
proof -
  from assms(2) have sz: "size0 (last_hidden_state out) = b"
    "size1 (last_hidden_state out) = s" "size2 (last_hidden_state out) = h"
    by (simp_all add: well_shaped_def shape3_def)
  have shape: "rows attention_mask = size0 (last_hidden_state out)"
    "cols attention_mask = size1 (last_hidden_state out)"
    using assms(4,5) sz by simp_all
  obtain num den where nd: "mean_operands out attention_mask = Inr (num, den)"
    and pool: "mean_pool out attention_mask = Inr (Some (T2 (div2 num den)))"
    and floor: "\<forall>i' < b. \<forall>k < h. 1 / 10 ^ 9 \<le> at2 den i' k"
    and zero: "\<forall>i' < b. (\<forall>j < s. at2 attention_mask i' j = 0) \<longrightarrow>
           (\<forall>k < h. at2 den i' k = 1 / 10 ^ 9 \<and> at2 num i' k = 0)"
    using mean_divisors [OF shape] unfolding sz by blast
  have 1: "\<exists>r. first_last_avg out = Inr r"
    using first_last_avg_eq [OF assms(2,3)] by simp
  have 2: "\<exists>r. last_avg out = Inr r"
    using last_avg_eq [of out] assms(3) sz by simp
  have 3: "\<exists>r. cls out = Inr r"
    using assms(3) sz by (simp add: cls_def Let_def select0_def)
  have 4: "\<exists>r. pooler out = Inr r"
    by (simp add: pooler_def)
  have any: "\<exists>result.
       get_sentence_embeddings model enc input_ids attention_mask token_type_ids = Inr result"
    using assms(1) 1 2 3 4 pool by (simp add: get_sentence_embeddings_def)
  have mean: "get_sentence_embeddings model (Some MEAN) input_ids attention_mask
        token_type_ids = Inr (Some (T2 (div2 num den)))"
    using assms(1) pool by (simp add: get_sentence_embeddings_def)
  have row: "\<forall>k < h. at2 den i k = 1 / 10 ^ 9"
    using zero assms(6,7) by simp
  show ?thesis using any nd mean floor row by blast
qed

theorem all_zero_mask_is_not_rejected_witness:
  "(\<exists>result. get_sentence_embeddings demo_model (Some LAST_AVG) (Tensor2 1 3 [[5, 6, 7]])
       (Tensor2 1 3 [[0, 0, 0]]) (Tensor2 1 3 [[0, 0, 0]]) = Inr result)
   \<and> (\<exists>numerator denominator.
         get_sentence_embeddings demo_model (Some MEAN) (Tensor2 1 3 [[5, 6, 7]])
           (Tensor2 1 3 [[0, 0, 0]]) (Tensor2 1 3 [[0, 0, 0]])
           = Inr (Some (T2 (div2 numerator denominator)))
       \<and> at2 denominator 0 0 = 1 / 10 ^ 9)"
proof -
  let ?e = "Tensor3 1 3 1 [[[5], [6], [7]]] :: real tensor3"
  let ?f = "Tensor3 1 3 1 [[[6], [7], [8]]] :: real tensor3"
  let ?t = "Tensor3 1 3 1 [[[7], [8], [9]]] :: real tensor3"
  let ?out = "\<lparr> hidden_states = [?e, ?f, ?t], last_hidden_state = ?t,
                  pooler_output = None \<rparr>"
  let ?m = "Tensor2 1 3 [[0, 0, 0]] :: int tensor2"
  have ws: "well_shaped ?out 1 3 1"
    by (simp add: well_shaped_def shape3_def)
  have zeros: "\<forall>j < 3. at2 ?m 0 j = 0"
    by (simp add: at2_def less_Suc_eq numeral_3_eq_3)
  have r: "rows ?m = 1" and c: "cols ?m = 3" by simp_all
  have "(0::nat) < 3" and "(0::nat) < 1" by simp_all
  from all_zero_mask_is_not_rejected
      [of demo_model "Tensor2 1 3 [[5, 6, 7]]" ?m ?m ?out 1 3 1 0 "Some LAST_AVG",
       OF demo_model_one ws \<open>0 < 3\<close> r c \<open>0 < 1\<close> zeros]
  show ?thesis by blast
qed

text \<open>
  The claim as stated fails: on a batch of one sentence whose mask is all zeros, pooling
  under MEAN raises nothing and returns the zero vector.
\<close>

theorem all_zero_mask_counterexample:
  "get_sentence_embeddings demo_model (Some MEAN) (Tensor2 1 3 [[5, 6, 7]])
       (Tensor2 1 3 [[0, 0, 0]]) (Tensor2 1 3 [[0, 0, 0]])
     = Inr (Some (T2 (Tensor2 1 1 [[0]])))"
  unfolding get_sentence_embeddings_def demo_model_one
  by (simp add: mean_pool_def mean_operands_def expand3_def unsqueeze_last_def float3_def
      mul3_def sum1_def clamp_min_def div2_def mk2_def mk3_def at2_def at3_def upt_3)

section \<open>Construction\<close>

text \<open>
  C9. When the model architecture passes its check, the constructor accepts
  \<^verbatim>\<open>encoder_type=None\<close> and stores it; pooling with that setting then matches no
  variant: it raises what the encoder call raises, and otherwise returns \<^verbatim>\<open>None\<close>.
\<close>

theorem encoder_type_none_is_accepted:
  assumes "enum_of_arg ModelArch_from_string model_arch_arg = Inr (Some arch)"
    and "arch \<in> set ModelArch_members"
  shows "\<exists>self.
       BaseModel_init ModelArch_from_string ModelArch_members EncoderType_from_string
         detected_device model_arch_arg name_or_path n_classes max_len ArgNone device_arg
         = Inr self
     \<and> encoder_type self = None
     \<and> get_sentence_embeddings model (encoder_type self) input_ids attention_mask
           token_type_ids
         = (case model input_ids attention_mask token_type_ids of
              Inl e \<Rightarrow> Inl e
            | Inr out \<Rightarrow> Inr None)"
  using assms
  by (auto simp: BaseModel_init_def enum_of_arg_def get_sentence_embeddings_def
      split: sum.splits)

theorem encoder_type_none_witness:
  "\<exists>self.
       BaseModel_init (\<lambda>s. Inl ValueError) [()] (\<lambda>s. Inl ValueError) ''cpu'' (ArgEnum ())
         None 2 128 ArgNone None = Inr self
     \<and> encoder_type self = None
     \<and> get_sentence_embeddings demo_model (encoder_type self) (Tensor2 1 3 [[5, 6, 7]])
           (Tensor2 1 3 [[1, 1, 1]]) (Tensor2 1 3 [[0, 0, 0]]) = Inr None"
  using encoder_type_none_is_accepted
    [of "\<lambda>s. Inl ValueError" "ArgEnum ()" "()" "[()]" "\<lambda>s. Inl ValueError" "''cpu''"
        None 2 128 None demo_model "Tensor2 1 3 [[5, 6, 7]]" "Tensor2 1 3 [[1, 1, 1]]"
        "Tensor2 1 3 [[0, 0, 0]]"]
  unfolding demo_model_one
  by (simp add: enum_of_arg_def)


section \<open>The MEAN branch on float values\<close>

lemma foldr_add_zeros:
  "\<forall>x \<in> set xs. x = Finite 0 \<Longrightarrow> foldr ieee_add xs (Finite 0) = Finite 0"
  by (induction xs) simp_all

lemma foldr_add_finite:
  "foldr ieee_add (map (\<lambda>j. Finite (f j)) js) (Finite 0) = Finite (\<Sum>j \<leftarrow> js. f j)"
  by (induction js) simp_all

lemma mean_operands_ieee_eq:
  assumes "rows m = size0 t" "cols m = size1 t"
  shows "mean_operands_ieee t m =
     Inr (mk2 (size0 t) (size2 t)
            (\<lambda>i k. foldr ieee_add
                      (map (\<lambda>j. ieee_mul (at3 t i j k) (Finite (real_of_int (at2 m i j))))
                         [0..<size1 t])
                      (Finite 0)),
          mk2 (size0 t) (size2 t)
            (\<lambda>i k. ieee_clamp_min
                      (foldr ieee_add
                         (map (\<lambda>j. Finite (real_of_int (at2 m i j))) [0..<size1 t])
                         (Finite 0))
                      (1 / 10 ^ 9)))"
proof -
  obtain e where e: "expand3 (unsqueeze_last m) (size0 t) (size1 t) (size2 t) = Inr e"
    and sz: "size0 e = size0 t" "size1 e = size1 t" "size2 e = size2 t"
    and at: "\<And>i j k. i < size0 t \<Longrightarrow> j < size1 t \<Longrightarrow> k < size2 t \<Longrightarrow> at3 e i j k = at2 m i j"
    using expand_mask [of m "size0 t" "size1 t" "size2 t"] assms by blast
  have 1: "sum1_ieee (mul3_ieee t (float3_ieee e)) = mk2 (size0 t) (size2 t)
         (\<lambda>i k. foldr ieee_add
                   (map (\<lambda>j. ieee_mul (at3 t i j k) (Finite (real_of_int (at2 m i j))))
                      [0..<size1 t])
                   (Finite 0))"
    unfolding sum1_ieee_def
    by (auto simp: mul3_ieee_def float3_ieee_def sz at3_mk3 at
        intro!: mk2_cong arg_cong2 [where f = "foldr ieee_add"])
  have 2: "clamp_min_ieee (sum1_ieee (float3_ieee e)) (1 / 10 ^ 9) = mk2 (size0 t) (size2 t)
         (\<lambda>i k. ieee_clamp_min
                   (foldr ieee_add
                      (map (\<lambda>j. Finite (real_of_int (at2 m i j))) [0..<size1 t])
                      (Finite 0))
                   (1 / 10 ^ 9))"
    unfolding clamp_min_ieee_def sum1_ieee_def
    by (auto simp: float3_ieee_def sz at2_mk2 at3_mk3 at
        intro!: mk2_cong arg_cong2 [where f = ieee_clamp_min]
          arg_cong2 [where f = "foldr ieee_add"])
  show ?thesis
    unfolding mean_operands_ieee_def Let_def by (simp only: e sum.case 1 2)
qed

text \<open>
  On finite hidden states the branch on float values returns what the branch on reals
  returns: the reals describe the code wherever no special value occurs.
\<close>

lemma mean_pool_ieee_finite:
  assumes "rows m = size0 t" "cols m = size1 t"
  shows "mean_pool_ieee (finite3 t) m = Inr (finite2 (masked_mean t m))"
proof -
  have sz: "size0 (finite3 t) = size0 t" "size1 (finite3 t) = size1 t"
    "size2 (finite3 t) = size2 t"
    by (simp_all add: finite3_def)
  have pos: "max x (1 / 10 ^ 9) \<noteq> (0::real)" for x
  proof -
    have "(0::real) < 1 / 10 ^ 9" by simp
    also have "\<dots> \<le> max x (1 / 10 ^ 9)" by simp
    finally show ?thesis by simp
  qed
  have num: "foldr ieee_add
        (map (\<lambda>j. ieee_mul (at3 (finite3 t) i j k) (Finite (real_of_int (at2 m i j))))
           [0..<size1 t]) (Finite 0)
      = Finite (\<Sum>j \<leftarrow> [0..<size1 t]. at3 t i j k * real_of_int (at2 m i j))"
    if "i < size0 t" "k < size2 t" for i k
  proof -
    have "map (\<lambda>j. ieee_mul (at3 (finite3 t) i j k) (Finite (real_of_int (at2 m i j))))
           [0..<size1 t]
        = map (\<lambda>j. Finite (at3 t i j k * real_of_int (at2 m i j))) [0..<size1 t]"
      using that by (intro map_cong) (simp_all add: finite3_def at3_mk3)
    then show ?thesis by (simp only: foldr_add_finite)
  qed
  have "div2_ieee
        (mk2 (size0 t) (size2 t)
           (\<lambda>i k. foldr ieee_add
                     (map (\<lambda>j. ieee_mul (at3 (finite3 t) i j k)
                                  (Finite (real_of_int (at2 m i j))))
                        [0..<size1 t])
                     (Finite 0)))
        (mk2 (size0 t) (size2 t)
           (\<lambda>i k. ieee_clamp_min
                     (foldr ieee_add
                        (map (\<lambda>j. Finite (real_of_int (at2 m i j))) [0..<size1 t])
                        (Finite 0))
                     (1 / 10 ^ 9)))
      = finite2 (masked_mean t m)"
    unfolding div2_ieee_def finite2_def masked_mean_def
    using pos by (auto simp: at2_mk2 num foldr_add_finite intro!: mk2_cong)
  then show ?thesis
    unfolding mean_pool_ieee_def
    using mean_operands_ieee_eq [of m "finite3 t"] assms by (simp add: sz)
qed

text \<open>
  C10, as the code has it. Under MEAN, for a sentence \<open>i\<close> whose attention mask is zero at
  every position and whose hidden states are all finite (the mask having the shape [b, s]
  of the token embeddings): the divisor of every component of that sentence is the floor
  \<open>1e-9\<close>, not zero, the dividend is zero, and pooling returns a tensor whose row for
  sentence \<open>i\<close> is the zero vector. No error is raised, and no NaN arises in that row.
  The other sentences of the batch may hold any values.
\<close>

theorem mean_all_zero_mask_gives_zero_vector:
  assumes "model input_ids attention_mask token_type_ids = Inr token_embeddings"
    and "rows attention_mask = size0 token_embeddings"
    and "cols attention_mask = size1 token_embeddings"
    and "i < size0 token_embeddings"
    and "\<forall>j < size1 token_embeddings. at2 attention_mask i j = 0"
    and "\<forall>j < size1 token_embeddings. \<forall>k < size2 token_embeddings.
           \<exists>x. at3 token_embeddings i j k = Finite x"
  shows "\<exists>numerator denominator.
       mean_operands_ieee token_embeddings attention_mask = Inr (numerator, denominator)
     \<and> (\<forall>k < size2 token_embeddings.
           at2 denominator i k = Finite (1 / 10 ^ 9) \<and> at2 numerator i k = Finite 0)
     \<and> get_sentence_embeddings_mean_ieee model input_ids attention_mask token_type_ids
         = Inr (div2_ieee numerator denominator)
     \<and> rows (div2_ieee numerator denominator) = size0 token_embeddings
     \<and> cols (div2_ieee numerator denominator) = size2 token_embeddings
     \<and> elems2 (div2_ieee numerator denominator) ! i
         = replicate (size2 token_embeddings) (Finite 0)"
proof -
  define t where "t = token_embeddings"
  define num where "num = mk2 (size0 t) (size2 t)
            (\<lambda>i k. foldr ieee_add
                      (map (\<lambda>j. ieee_mul (at3 t i j k)
                                   (Finite (real_of_int (at2 attention_mask i j))))
                         [0..<size1 t])
                      (Finite 0))"
  define den where "den = mk2 (size0 t) (size2 t)
            (\<lambda>i k. ieee_clamp_min
                      (foldr ieee_add
                         (map (\<lambda>j. Finite (real_of_int (at2 attention_mask i j)))
                            [0..<size1 t])
                         (Finite 0))
                      (1 / 10 ^ 9))"
  have nd: "mean_operands_ieee t attention_mask = Inr (num, den)"
    using mean_operands_ieee_eq [of attention_mask t] assms(2,3)
    by (simp add: t_def num_def den_def)
  have i: "i < size0 t" and z: "\<forall>j < size1 t. at2 attention_mask i j = 0"
    and fin: "\<forall>j < size1 t. \<forall>k < size2 t. \<exists>x. at3 t i j k = Finite x"
    using assms(4,5,6) by (simp_all add: t_def)
  have d0: "foldr ieee_add
        (map (\<lambda>j. Finite (real_of_int (at2 attention_mask i j))) [0..<size1 t]) (Finite 0)
      = Finite 0"
    by (rule foldr_add_zeros) (auto simp: z)
  have n0: "foldr ieee_add
        (map (\<lambda>j. ieee_mul (at3 t i j k) (Finite (real_of_int (at2 attention_mask i j))))
           [0..<size1 t]) (Finite 0)
      = Finite 0" if k: "k < size2 t" for k
  proof (rule foldr_add_zeros, rule ballI)
    fix x
    assume "x \<in> set (map (\<lambda>j. ieee_mul (at3 t i j k)
        (Finite (real_of_int (at2 attention_mask i j)))) [0..<size1 t])"
    then obtain j where j: "j < size1 t"
      and x: "x = ieee_mul (at3 t i j k) (Finite (real_of_int (at2 attention_mask i j)))"
      by auto
    from fin j k obtain y where "at3 t i j k = Finite y" by blast
    then show "x = Finite 0" using x z j by simp
  qed
  have ops: "\<forall>k < size2 t. at2 den i k = Finite (1 / 10 ^ 9) \<and> at2 num i k = Finite 0"
    using i by (simp add: num_def den_def at2_mk2 d0 n0)
  have pool: "get_sentence_embeddings_mean_ieee model input_ids attention_mask token_type_ids
         = Inr (div2_ieee num den)"
    using assms(1) nd
    by (simp add: get_sentence_embeddings_mean_ieee_def mean_pool_ieee_def t_def)
  have sz: "rows (div2_ieee num den) = size0 t" "cols (div2_ieee num den) = size2 t"
    by (simp_all add: div2_ieee_def num_def)
  have "elems2 (div2_ieee num den) ! i
      = map (\<lambda>k. ieee_div (at2 num i k) (at2 den i k)) [0..<size2 t]"
    using i by (simp add: div2_ieee_def num_def elems2_mk2_nth)
  also have "\<dots> = map (\<lambda>k. Finite 0) [0..<size2 t]"
    using ops by (intro map_cong) simp_all
  also have "\<dots> = replicate (size2 t) (Finite 0)"
    by (simp add: map_replicate_const)
  finally have row: "elems2 (div2_ieee num den) ! i = replicate (size2 t) (Finite 0)" .
  show ?thesis
    using nd ops pool sz row unfolding t_def by blast
qed

theorem mean_all_zero_mask_witness:
  "\<exists>pooled.
       get_sentence_embeddings_mean_ieee
         (\<lambda>ids m tt. Inr (Tensor3 2 2 1 [[[Finite 9], [PosInf]], [[Finite 6], [Finite 2]]]))
         (Tensor2 2 2 [[7, 9], [4, 0]]) (Tensor2 2 2 [[1, 1], [0, 0]])
         (Tensor2 2 2 [[0, 0], [0, 0]])
         = Inr pooled
     \<and> elems2 pooled ! 1 = [Finite 0]
     \<and> pooled = Tensor2 2 1 [[PosInf], [Finite 0]]"
proof -
  let ?t = "Tensor3 2 2 1 [[[Finite 9], [PosInf]], [[Finite 6], [Finite 2]]]"
  let ?model = "\<lambda>(ids :: int tensor2) (m :: int tensor2) (tt :: int tensor2).
      (Inr ?t :: error + ieee tensor3)"
  let ?ids = "Tensor2 2 2 [[7, 9], [4, 0]] :: int tensor2"
  let ?m = "Tensor2 2 2 [[1, 1], [0, 0]] :: int tensor2"
  let ?tt = "Tensor2 2 2 [[0, 0], [0, 0]] :: int tensor2"
  have call: "?model ?ids ?m ?tt = Inr ?t" by simp
  have r: "rows ?m = size0 ?t" and c: "cols ?m = size1 ?t" and i: "1 < size0 ?t"
    by simp_all
  have zeros: "\<forall>j < size1 ?t. at2 ?m 1 j = 0"
    by (simp add: at2_def less_Suc_eq numeral_2_eq_2)
  have fin: "\<forall>j < size1 ?t. \<forall>k < size2 ?t. \<exists>x. at3 ?t 1 j k = Finite x"
    by (simp add: at3_def less_Suc_eq numeral_2_eq_2)
  from mean_all_zero_mask_gives_zero_vector
      [of ?model ?ids ?m ?tt ?t 1, OF call r c i zeros fin]
  obtain num den where
    pool: "get_sentence_embeddings_mean_ieee ?model ?ids ?m ?tt = Inr (div2_ieee num den)"
    and row: "elems2 (div2_ieee num den) ! 1 = replicate (size2 ?t) (Finite 0)"
    by blast
  have "get_sentence_embeddings_mean_ieee ?model ?ids ?m ?tt
      = Inr (Tensor2 2 1 [[PosInf], [Finite 0]])"
    by code_simp
  then have val: "div2_ieee num den = Tensor2 2 1 [[PosInf], [Finite 0]]"
    using pool by simp
  have "elems2 (div2_ieee num den) ! 1 = [Finite 0]" using row by simp
  then show ?thesis using pool val by blast
qed

text \<open>
  The claim as stated fails where a hidden state is not finite: for a sentence whose mask
  is all zeros and whose first hidden state is an infinity, the product of the infinity
  and the mask entry zero is a NaN, and so is the pooled row.
\<close>

theorem mean_all_zero_mask_counterexample:
  "get_sentence_embeddings_mean_ieee
       (\<lambda>ids m tt. Inr (Tensor3 1 2 1 [[[PosInf], [Finite 3]]]))
       (Tensor2 1 2 [[7, 9]]) (Tensor2 1 2 [[0, 0]]) (Tensor2 1 2 [[0, 0]])
     = Inr (Tensor2 1 1 [[NaN]])"
  by code_simp


section \<open>Lemmas on \<^verbatim>\<open>encode\<close>\<close>

lemma is_argsort_props:
  assumes "is_argsort ks p"
  shows "length p = length ks" "set p = {0..<length ks}" "distinct p"
    "sorted (map (\<lambda>i. ks ! i) p)"
proof -
  from assms have s: "sort p = [0..<length ks]" and o: "sorted (map (\<lambda>i. ks ! i) p)"
    by (simp_all add: is_argsort_def)
  have "length (sort p) = length p" by simp
  then show "length p = length ks" using s by simp
  have "set (sort p) = set p" by simp
  then show "set p = {0..<length ks}" using s by simp
  have "distinct (sort p) = distinct p" by simp
  then show "distinct p" using s by simp
  show "sorted (map (\<lambda>i. ks ! i) p)" by (rule o)
qed

lemma gather_map:
  "\<forall>i \<in> set idxs. i < length xs \<Longrightarrow> gather xs idxs = Inr (map (\<lambda>i. xs ! i) idxs)"
  by (induction idxs) simp_all

text \<open>
  The argsort of a permutation is its inverse: the keys are distinct, so only one order
  of the indices sorts them.
\<close>

lemma argsort_inverse:
  assumes p: "is_argsort ks p" and q: "is_argsort (map int p) q" and i: "i < length ks"
  shows "q ! i < length ks" "p ! (q ! i) = i"
proof -
  let ?n = "length ks"
  note pp = is_argsort_props [OF p]
  note qq = is_argsort_props [OF q]
  have lq: "length q = ?n" using qq(1) pp(1) by simp
  have sq: "set q = {0..<?n}" using qq(2) pp(1) by simp
  then have qi: "q ! i \<in> {0..<?n}" using i lq by (metis nth_mem)
  then show "q ! i < ?n" by simp
  let ?r = "map (\<lambda>j. int (p ! j)) q"
  have r_eq: "map (\<lambda>j. map int p ! j) q = ?r"
    using sq pp(1) by (intro map_cong) auto
  have sorted_r: "sorted ?r" using qq(4) r_eq by simp
  have inj: "inj_on (\<lambda>j. int (p ! j)) (set q)"
  proof (rule inj_onI)
    fix a b assume "a \<in> set q" "b \<in> set q" "int (p ! a) = int (p ! b)"
    then show "a = b"
      using sq pp(1) pp(3) by (simp add: nth_eq_iff_index_eq)
  qed
  have dist_r: "distinct ?r" using qq(3) inj by (simp add: distinct_map)
  have "(\<lambda>j. p ! j) ` {0..<?n} = set p"
    using pp(1) by (auto simp: set_conv_nth)
  then have "(\<lambda>j. p ! j) ` set q = {0..<?n}" using sq pp(2) by simp
  then have set_r: "set ?r = int ` {0..<?n}"
    by (simp add: image_image [symmetric])
  have "?r = map int [0..<?n]"
  proof (rule sorted_distinct_set_unique)
    show "sorted ?r" by (rule sorted_r)
    show "distinct ?r" by (rule dist_r)
    show "sorted (map int [0..<?n])" by (simp add: sorted_map)
    show "distinct (map int [0..<?n])" by (simp add: distinct_map)
    show "set ?r = set (map int [0..<?n])" using set_r by simp
  qed
  then have "?r ! i = map int [0..<?n] ! i" by simp
  then show "p ! (q ! i) = i" using i lq by simp
qed

lemma slot_div_mod:
  fixes bs :: nat
  assumes "m * bs \<le> j" "j < m * bs + bs"
  shows "j div bs = m" "j mod bs = j - m * bs"
proof -
  from assms have pos: "0 < bs" by (cases bs) auto
  show d: "j div bs = m"
    using assms by (intro div_nat_eqI) (simp_all add: mult.commute)
  have "j mod bs = j - (j div bs) * bs" by (simp add: minus_div_mult_eq_mod)
  then show "j mod bs = j - m * bs" using d by simp
qed

text \<open>
  The loop: when every batch is good, it returns one row per sentence, and the row in
  slot \<open>j\<close> is row \<open>j mod batch_size\<close> of what the loop body returned on batch number
  \<open>j div batch_size\<close>.
\<close>

lemma encode_loop_rows:
  assumes bs: "0 < bs"
    and good: "\<forall>k. k * bs < length xs \<longrightarrow> good_batch embed_batch sh (take bs (drop (k * bs) xs))"
  shows "start = m * bs \<Longrightarrow> length acc = min start (length xs) \<Longrightarrow>
     (\<forall>j < length acc. row_shape (acc ! j) = sh \<and>
        (\<exists>rows. embed_batch (take bs (drop (j div bs * bs) xs)) = Inr rows
                \<and> acc ! j = rows ! (j mod bs))) \<Longrightarrow>
     \<exists>E. encode_loop embed_batch xs bs start acc = Inr E \<and> length E = length xs \<and>
       (\<forall>j < length xs. row_shape (E ! j) = sh \<and>
          (\<exists>rows. embed_batch (take bs (drop (j div bs * bs) xs)) = Inr rows
                  \<and> E ! j = rows ! (j mod bs)))"
proof (induction "length xs - start" arbitrary: start m acc rule: less_induct)
  case less
  show ?case
  proof (cases "start < length xs")
    case False
    then have "encode_loop embed_batch xs bs start acc = Inr acc"
      by (subst encode_loop.simps) simp
    moreover have "length acc = length xs" using False less.prems(2) by simp
    ultimately show ?thesis using less.prems(3) by simp
  next
    case True
    let ?b = "take bs (drop start xs)"
    have "good_batch embed_batch sh ?b" using good True less.prems(1) by simp
    then obtain rows where rows: "embed_batch ?b = Inr rows"
      and lrows: "length rows = length ?b"
      and shapes: "list_all (\<lambda>r. row_shape r = sh) rows"
      by (auto simp: good_batch_def split: sum.splits)
    have lacc: "length acc = start" using True less.prems(2) by simp
    have step: "encode_loop embed_batch xs bs start acc
        = encode_loop embed_batch xs bs (start + bs) (acc @ rows)"
      using True bs rows by (subst encode_loop.simps) simp
    have 1: "length xs - (start + bs) < length xs - start" using True bs by simp
    have 2: "start + bs = Suc m * bs" using less.prems(1) by simp
    have 3: "length (acc @ rows) = min (start + bs) (length xs)"
      using lacc lrows True by simp
    have 4: "\<forall>j < length (acc @ rows). row_shape ((acc @ rows) ! j) = sh \<and>
        (\<exists>rows'. embed_batch (take bs (drop (j div bs * bs) xs)) = Inr rows'
                \<and> (acc @ rows) ! j = rows' ! (j mod bs))"
    proof (intro allI impI)
      fix j assume j: "j < length (acc @ rows)"
      show "row_shape ((acc @ rows) ! j) = sh \<and>
        (\<exists>rows'. embed_batch (take bs (drop (j div bs * bs) xs)) = Inr rows'
                \<and> (acc @ rows) ! j = rows' ! (j mod bs))"
      proof (cases "j < start")
        case True
        then show ?thesis using less.prems(3) lacc by (simp add: nth_append)
      next
        case False
        then have ge: "m * bs \<le> j" using less.prems(1) by simp
        have "length rows \<le> bs" using lrows by simp
        then have lt: "j < m * bs + bs" using j lacc less.prems(1) by simp
        have jr: "j - start < length rows" using j lacc False by simp
        have nth: "(acc @ rows) ! j = rows ! (j - start)"
          using False lacc by (simp add: nth_append)
        have "row_shape (rows ! (j - start)) = sh"
          using shapes jr by (simp add: list_all_length)
        moreover have "embed_batch (take bs (drop (j div bs * bs) xs)) = Inr rows"
          using rows slot_div_mod(1) [OF ge lt] less.prems(1) by simp
        moreover have "rows ! (j - start) = rows ! (j mod bs)"
          using slot_div_mod(2) [OF ge lt] less.prems(1) by simp
        ultimately show ?thesis using nth by simp
      qed
    qed
    show ?thesis
      using less.hyps [OF 1 2 3 4] step by simp
  qed
qed

lemma torch_stack_uniform:
  "rs \<noteq> [] \<Longrightarrow> \<forall>r \<in> set rs. row_shape r = sh \<Longrightarrow> torch_stack rs = Inr (Stacked Torch rs)"
  by (cases rs) (auto simp: torch_stack_def)

lemma np_asarray_uniform:
  "\<forall>r \<in> set rs. row_shape r = sh \<Longrightarrow> np_asarray rs = Inr (Stacked Numpy rs)"
  by (cases rs) (auto simp: np_asarray_def)


lemma nth_batch:
  fixes bs :: nat
  assumes "0 < bs" "j < length xs"
  shows "take bs (drop (j div bs * bs) xs) ! (j mod bs) = xs ! j"
proof -
  have "j mod bs < bs" using assms(1) by simp
  moreover have "j div bs * bs + j mod bs = j" by simp
  moreover have "j div bs * bs \<le> j" by simp
  then have "j div bs * bs \<le> length xs" using assms(2) by linarith
  ultimately show ?thesis by simp
qed

text \<open>
  The whole of \<^verbatim>\<open>encode\<close>, for either kind of input, when the two calls of argsort
  keep their contract and every batch is good. \<open>q ! i\<close> is the slot of sentence \<open>i\<close> in the
  sorted list.
\<close>

lemma encode_core:
  fixes S :: "string list" and batch_size :: int
  assumes S: "S = (case sentences_in of Sentence s \<Rightarrow> [s] | Sentences ss \<Rightarrow> ss)"
    and p: "p = argsort (map (\<lambda>s. - int (length s)) S)"
    and q: "q = argsort (map int p)"
    and ap: "is_argsort (map (\<lambda>s. - int (length s)) S) p"
    and aq: "is_argsort (map int p) q"
    and bs: "0 < batch_size"
    and srt: "sentences_sorted = map (\<lambda>i. S ! i) p"
    and emb: "embed_batch
        = batch_embeddings tokenizer model (encoder_type self) (max_seq_length self)"
    and good: "\<forall>k. k * nat batch_size < length S \<longrightarrow>
        good_batch embed_batch sh
          (take (nat batch_size) (drop (k * nat batch_size) sentences_sorted))"
    and ne: "S \<noteq> [] \<or> \<not> convert_to_tensor"
  shows "\<exists>rs. length rs = length S \<and>
      (\<forall>i < length S.
         q ! i < length S \<and> sentences_sorted ! (q ! i) = S ! i \<and>
         take (nat batch_size)
           (drop (q ! i div nat batch_size * nat batch_size) sentences_sorted)
           ! (q ! i mod nat batch_size) = S ! i \<and>
         (\<exists>rows. embed_batch (take (nat batch_size)
                    (drop (q ! i div nat batch_size * nat batch_size) sentences_sorted))
                  = Inr rows
                \<and> rs ! i = rows ! (q ! i mod nat batch_size))) \<and>
      encode argsort tokenizer model self sentences_in batch_size convert_to_numpy
          convert_to_tensor
        = Inr (case sentences_in of
                 Sentence s \<Rightarrow>
                   One (if convert_to_tensor then Torch
                        else if convert_to_numpy then Numpy else Torch) (rs ! 0)
               | Sentences ss \<Rightarrow> sequence_of convert_to_numpy convert_to_tensor rs)"
proof -
  let ?n = "length S" and ?bs = "nat batch_size"
  note pp = is_argsort_props [OF ap]
  note qq = is_argsort_props [OF aq]
  have lp: "length p = ?n" using pp(1) by simp
  have sp: "set p = {0..<?n}" using pp(2) by simp
  have lq: "length q = ?n" using qq(1) lp by simp
  have sq: "set q = {0..<?n}" using qq(2) lp by simp
  have bs': "0 < ?bs" using bs by simp
  have ls: "length sentences_sorted = ?n" using srt lp by simp
  have g1: "gather S p = Inr sentences_sorted"
    using gather_map [of p S] sp srt by simp
  have good': "\<forall>k. k * ?bs < length sentences_sorted \<longrightarrow>
        good_batch embed_batch sh (take ?bs (drop (k * ?bs) sentences_sorted))"
    using good ls by simp
  obtain E where E: "encode_loop embed_batch sentences_sorted ?bs 0 [] = Inr E"
    and lE: "length E = ?n"
    and rowsE: "\<And>j. j < ?n \<Longrightarrow> row_shape (E ! j) = sh \<and>
          (\<exists>rows. embed_batch (take ?bs (drop (j div ?bs * ?bs) sentences_sorted)) = Inr rows
                  \<and> E ! j = rows ! (j mod ?bs))"
    using encode_loop_rows [OF bs' good', of 0 0 "[]"] ls by auto
  define rs where "rs = map (\<lambda>i. E ! i) q"
  have g2: "gather E q = Inr rs"
    using gather_map [of q E] sq lE rs_def by simp
  have lrs: "length rs = ?n" using rs_def lq by simp
  have inv: "q ! i < ?n \<and> p ! (q ! i) = i" if "i < ?n" for i
    using argsort_inverse [OF ap aq, of i] that by simp
  have shapes: "\<forall>r \<in> set rs. row_shape r = sh"
    using rowsE sq by (auto simp: rs_def)
  have conv: "(if convert_to_tensor then torch_stack rs
               else if (if convert_to_tensor then False else convert_to_numpy)
                    then np_asarray rs else Inr (PyList rs))
      = Inr (sequence_of convert_to_numpy convert_to_tensor rs)"
  proof (cases convert_to_tensor)
    case True
    then have "rs \<noteq> []" using ne lrs by auto
    then show ?thesis
      using True torch_stack_uniform [OF _ shapes] by (simp add: sequence_of_def)
  next
    case False
    then show ?thesis
      using np_asarray_uniform [OF shapes] by (simp add: sequence_of_def)
  qed
  have slots: "\<forall>i < ?n.
         q ! i < ?n \<and> sentences_sorted ! (q ! i) = S ! i \<and>
         take ?bs (drop (q ! i div ?bs * ?bs) sentences_sorted) ! (q ! i mod ?bs) = S ! i \<and>
         (\<exists>rows. embed_batch (take ?bs (drop (q ! i div ?bs * ?bs) sentences_sorted))
                  = Inr rows
                \<and> rs ! i = rows ! (q ! i mod ?bs))"
  proof (intro allI impI)
    fix i assume i: "i < ?n"
    have qi: "q ! i < ?n" and pq: "p ! (q ! i) = i" using inv [OF i] by simp_all
    have a: "sentences_sorted ! (q ! i) = S ! i" using srt qi lp pq by simp
    have b: "take ?bs (drop (q ! i div ?bs * ?bs) sentences_sorted) ! (q ! i mod ?bs) = S ! i"
      using nth_batch [OF bs', of "q ! i" sentences_sorted] qi ls a by simp
    have c: "rs ! i = E ! (q ! i)" using i lq by (simp add: rs_def)
    show "q ! i < ?n \<and> sentences_sorted ! (q ! i) = S ! i \<and>
         take ?bs (drop (q ! i div ?bs * ?bs) sentences_sorted) ! (q ! i mod ?bs) = S ! i \<and>
         (\<exists>rows. embed_batch (take ?bs (drop (q ! i div ?bs * ?bs) sentences_sorted))
                  = Inr rows
                \<and> rs ! i = rows ! (q ! i mod ?bs))"
      using qi a b c rowsE [OF qi] by simp
  qed
  have body: "(case gather S p of Inl e \<Rightarrow> Inl e
         | Inr sentences_sorted \<Rightarrow>
             if batch_size = 0 then Inl ValueError
             else
               (case (if batch_size < 0 then Inr []
                      else encode_loop embed_batch sentences_sorted (nat batch_size) 0 []) of
                  Inl e \<Rightarrow> Inl e
                | Inr all_embeddings \<Rightarrow>
                    (case gather all_embeddings (argsort (map int p)) of
                       Inl e \<Rightarrow> Inl e
                     | Inr restored \<Rightarrow>
                         (case (if convert_to_tensor then torch_stack restored
                                else if (if convert_to_tensor then False else convert_to_numpy)
                                     then np_asarray restored
                                else Inr (PyList restored)) of
                            Inl e \<Rightarrow> Inl e
                          | Inr result \<Rightarrow>
                              if input_is_string then first_item result else Inr result))))
      = (if input_is_string
         then first_item (sequence_of convert_to_numpy convert_to_tensor rs)
         else Inr (sequence_of convert_to_numpy convert_to_tensor rs))"
    for input_is_string
    using bs by (simp add: g1 E q [symmetric] g2 conv)
  have enc0: "encode argsort tokenizer model self sentences_in batch_size convert_to_numpy
          convert_to_tensor
        = (if (case sentences_in of Sentence s \<Rightarrow> True | Sentences ss \<Rightarrow> False)
           then first_item (sequence_of convert_to_numpy convert_to_tensor rs)
           else Inr (sequence_of convert_to_numpy convert_to_tensor rs))"
    unfolding encode_def Let_def S [symmetric] p [symmetric] emb [symmetric]
    by (rule body)
  have enc: "encode argsort tokenizer model self sentences_in batch_size convert_to_numpy
          convert_to_tensor
        = Inr (case sentences_in of
                 Sentence s \<Rightarrow>
                   One (if convert_to_tensor then Torch
                        else if convert_to_numpy then Numpy else Torch) (rs ! 0)
               | Sentences ss \<Rightarrow> sequence_of convert_to_numpy convert_to_tensor rs)"
  proof (cases sentences_in)
    case (Sentence s)
    then have "S = [s]" using S by simp
    then have "rs \<noteq> []" using lrs by auto
    then have fi: "first_item (sequence_of convert_to_numpy convert_to_tensor rs)
        = Inr (One (if convert_to_tensor then Torch
                    else if convert_to_numpy then Numpy else Torch) (rs ! 0))"
      by (cases rs) (simp_all add: first_item_def sequence_of_def getitem_def)
    show ?thesis unfolding enc0 using Sentence fi by simp
  next
    case (Sentences ss)
    show ?thesis unfolding enc0 using Sentences by simp
  qed
  show ?thesis using lrs slots enc by blast
qed


section \<open>Theorems on \<^verbatim>\<open>encode\<close>\<close>

text \<open>
  C1. Let \<open>p\<close> be the argsort of the negated sentence lengths and \<open>q\<close> the argsort of \<open>p\<close>,
  both calls keeping the contract of argsort, let the batch size be positive, and let the
  loop body return one row per sentence, of one shape, on every batch of the sorted list
  (and let the list not be empty when a stacked tensor is requested). Then \<^verbatim>\<open>encode\<close>
  returns a sequence \<open>rs\<close> as long as the input, and for every index \<open>i\<close>: sentence \<open>i\<close>
  stands in slot \<open>q ! i\<close> of the sorted list, that is at position \<open>q ! i mod batch_size\<close> of
  batch number \<open>q ! i div batch_size\<close>, and \<open>rs ! i\<close> is the row at that position of what the
  loop body returned for that batch: the embedding computed for sentence \<open>i\<close>.
\<close>

theorem encode_restores_input_order:
  fixes S :: "string list" and batch_size :: int
  assumes "p = argsort (map (\<lambda>s. - int (length s)) S)"
    and "q = argsort (map int p)"
    and "is_argsort (map (\<lambda>s. - int (length s)) S) p"
    and "is_argsort (map int p) q"
    and "0 < batch_size"
    and "sentences_sorted = map (\<lambda>i. S ! i) p"
    and "embed_batch
        = batch_embeddings tokenizer model (encoder_type self) (max_seq_length self)"
    and "\<forall>k. k * nat batch_size < length S \<longrightarrow>
        good_batch embed_batch sh
          (take (nat batch_size) (drop (k * nat batch_size) sentences_sorted))"
    and "S \<noteq> [] \<or> \<not> convert_to_tensor"
  shows "\<exists>rs.
      encode argsort tokenizer model self (Sentences S) batch_size convert_to_numpy
          convert_to_tensor
        = Inr (sequence_of convert_to_numpy convert_to_tensor rs) \<and>
      length rs = length S \<and>
      (\<forall>i < length S.
         q ! i < length S \<and> sentences_sorted ! (q ! i) = S ! i \<and>
         take (nat batch_size)
           (drop (q ! i div nat batch_size * nat batch_size) sentences_sorted)
           ! (q ! i mod nat batch_size) = S ! i \<and>
         (\<exists>rows. embed_batch (take (nat batch_size)
                    (drop (q ! i div nat batch_size * nat batch_size) sentences_sorted))
                  = Inr rows
                \<and> rs ! i = rows ! (q ! i mod nat batch_size)))"
proof -
  have S: "S = (case Sentences S of Sentence s \<Rightarrow> [s] | Sentences ss \<Rightarrow> ss)" by simp
  from encode_core [OF S assms, of convert_to_numpy]
  show ?thesis by auto
qed

theorem encode_restores_input_order_witness:
  "\<exists>rs. encode insertion_argsort demo_tokenizer demo_model (demo_self (Some CLS))
          (Sentences [''bc'', ''abcd'', ''c'']) 2 True False
        = Inr (Stacked Numpy rs)
      \<and> length rs = 3 \<and> rs ! 0 = Row1 [100] \<and> rs ! 1 = Row1 [99] \<and> rs ! 2 = Row1 [101]"
proof -
  let ?S = "[''bc'', ''abcd'', ''c'']"
  let ?sorted = "[''abcd'', ''bc'', ''c'']"
  let ?p = "[1, 0, 2] :: nat list"
  let ?embed = "batch_embeddings demo_tokenizer demo_model
      (encoder_type (demo_self (Some CLS))) (max_seq_length (demo_self (Some CLS)))"
  have p: "?p = insertion_argsort (map (\<lambda>s. - int (length s)) ?S)" by code_simp
  have q: "?p = insertion_argsort (map int ?p)" by code_simp
  have ap: "is_argsort (map (\<lambda>s. - int (length s)) ?S) ?p" by code_simp
  have aq: "is_argsort (map int ?p) ?p" by code_simp
  have srt: "?sorted = map (\<lambda>i. ?S ! i) ?p" by simp
  have b0: "?embed [''abcd'', ''bc''] = Inr [Row1 [99], Row1 [100]]" by code_simp
  have b1: "?embed [''c''] = Inr [Row1 [101]]" by code_simp
  have good: "\<forall>k. k * nat 2 < length ?S \<longrightarrow>
        good_batch ?embed [1] (take (nat 2) (drop (k * nat 2) ?sorted))"
  proof (intro allI impI)
    fix k :: nat
    assume "k * nat 2 < length ?S"
    then have "k = 0 \<or> k = 1" by auto
    then show "good_batch ?embed [1] (take (nat 2) (drop (k * nat 2) ?sorted))"
    proof
      assume "k = 0"
      then show ?thesis by (simp add: good_batch_def b0 row_shape_def)
    next
      assume "k = 1"
      then show ?thesis by (simp add: good_batch_def b1 row_shape_def)
    qed
  qed
  from encode_restores_input_order
    [of ?p insertion_argsort ?S ?p 2 ?sorted ?embed demo_tokenizer demo_model
        "demo_self (Some CLS)" "[1]" False True,
     OF p q ap aq _ srt refl good]
  obtain rs where enc: "encode insertion_argsort demo_tokenizer demo_model
        (demo_self (Some CLS)) (Sentences ?S) 2 True False = Inr (sequence_of True False rs)"
    and len: "length rs = length ?S"
    and slots: "\<And>i. i < length ?S \<Longrightarrow>
         \<exists>rows. ?embed (take (nat 2) (drop (?p ! i div nat 2 * nat 2) ?sorted)) = Inr rows
                \<and> rs ! i = rows ! (?p ! i mod nat 2)"
    by auto
  have r0: "rs ! 0 = Row1 [100]" using slots [of 0] by (simp add: b0)
  have r1: "rs ! 1 = Row1 [99]" using slots [of 1] by (simp add: b0)
  have r2: "rs ! 2 = Row1 [101]" using slots [of 2] by (simp add: b1)
  show ?thesis using enc len r0 r1 r2 by (simp add: sequence_of_def)
qed

text \<open>
  C5. Under the same conditions, for either kind of input, with \<open>S\<close> the list of sentences
  (the one sentence alone when a string is passed) and \<open>rs\<close> the rows in the order of \<open>S\<close>
  as in C1: for a string, \<^verbatim>\<open>encode\<close> returns the one row \<open>rs ! 0\<close> itself, not a
  sequence; for a list, it returns the sequence \<open>rs\<close>, which is as long as the list.
\<close>

theorem encode_string_or_sequence:
  fixes S :: "string list" and batch_size :: int
  assumes "S = (case sentences_in of Sentence s \<Rightarrow> [s] | Sentences ss \<Rightarrow> ss)"
    and "p = argsort (map (\<lambda>s. - int (length s)) S)"
    and "q = argsort (map int p)"
    and "is_argsort (map (\<lambda>s. - int (length s)) S) p"
    and "is_argsort (map int p) q"
    and "0 < batch_size"
    and "sentences_sorted = map (\<lambda>i. S ! i) p"
    and "embed_batch
        = batch_embeddings tokenizer model (encoder_type self) (max_seq_length self)"
    and "\<forall>k. k * nat batch_size < length S \<longrightarrow>
        good_batch embed_batch sh
          (take (nat batch_size) (drop (k * nat batch_size) sentences_sorted))"
    and "S \<noteq> [] \<or> \<not> convert_to_tensor"
  shows "\<exists>rs. length rs = length S \<and>
      (\<forall>i < length S.
         take (nat batch_size)
           (drop (q ! i div nat batch_size * nat batch_size) sentences_sorted)
           ! (q ! i mod nat batch_size) = S ! i \<and>
         (\<exists>rows. embed_batch (take (nat batch_size)
                    (drop (q ! i div nat batch_size * nat batch_size) sentences_sorted))
                  = Inr rows
                \<and> rs ! i = rows ! (q ! i mod nat batch_size))) \<and>
      encode argsort tokenizer model self sentences_in batch_size convert_to_numpy
          convert_to_tensor
        = Inr (case sentences_in of
                 Sentence s \<Rightarrow>
                   One (if convert_to_tensor then Torch
                        else if convert_to_numpy then Numpy else Torch) (rs ! 0)
               | Sentences ss \<Rightarrow> sequence_of convert_to_numpy convert_to_tensor rs)"
proof -
  from encode_core [OF assms, of convert_to_numpy]
  obtain rs where "length rs = length S"
    and "\<forall>i < length S.
         q ! i < length S \<and> sentences_sorted ! (q ! i) = S ! i \<and>
         take (nat batch_size)
           (drop (q ! i div nat batch_size * nat batch_size) sentences_sorted)
           ! (q ! i mod nat batch_size) = S ! i \<and>
         (\<exists>rows. embed_batch (take (nat batch_size)
                    (drop (q ! i div nat batch_size * nat batch_size) sentences_sorted))
                  = Inr rows
                \<and> rs ! i = rows ! (q ! i mod nat batch_size))"
    and "encode argsort tokenizer model self sentences_in batch_size convert_to_numpy
          convert_to_tensor
        = Inr (case sentences_in of
                 Sentence s \<Rightarrow>
                   One (if convert_to_tensor then Torch
                        else if convert_to_numpy then Numpy else Torch) (rs ! 0)
               | Sentences ss \<Rightarrow> sequence_of convert_to_numpy convert_to_tensor rs)"
    by blast
  then show ?thesis by blast
qed

theorem encode_string_witness:
  "encode insertion_argsort demo_tokenizer demo_model (demo_self (Some CLS))
       (Sentence ''bc'') 2 True False
     = Inr (One Numpy (Row1 [100]))"
proof -
  let ?S = "[''bc'']"
  let ?p = "[0] :: nat list"
  let ?embed = "batch_embeddings demo_tokenizer demo_model
      (encoder_type (demo_self (Some CLS))) (max_seq_length (demo_self (Some CLS)))"
  have S: "?S = (case Sentence ''bc'' of Sentence s \<Rightarrow> [s] | Sentences ss \<Rightarrow> ss)" by simp
  have p: "?p = insertion_argsort (map (\<lambda>s. - int (length s)) ?S)" by code_simp
  have q: "?p = insertion_argsort (map int ?p)" by code_simp
  have ap: "is_argsort (map (\<lambda>s. - int (length s)) ?S) ?p" by code_simp
  have aq: "is_argsort (map int ?p) ?p" by code_simp
  have srt: "?S = map (\<lambda>i. ?S ! i) ?p" by simp
  have b0: "?embed [''bc''] = Inr [Row1 [100]]" by code_simp
  have good: "\<forall>k. k * nat 2 < length ?S \<longrightarrow>
        good_batch ?embed [1] (take (nat 2) (drop (k * nat 2) ?S))"
    by (simp add: good_batch_def b0 row_shape_def)
  from encode_string_or_sequence
    [of ?S "Sentence ''bc''" ?p insertion_argsort ?p 2 ?S ?embed demo_tokenizer demo_model
        "demo_self (Some CLS)" "[1]" False True,
     OF S p q ap aq _ srt refl good]
  obtain rs where enc: "encode insertion_argsort demo_tokenizer demo_model
        (demo_self (Some CLS)) (Sentence ''bc'') 2 True False = Inr (One Numpy (rs ! 0))"
    and slots: "\<And>i. i < length ?S \<Longrightarrow>
         \<exists>rows. ?embed (take (nat 2) (drop (?p ! i div nat 2 * nat 2) ?S)) = Inr rows
                \<and> rs ! i = rows ! (?p ! i mod nat 2)"
    by auto
  have "rs ! 0 = Row1 [100]" using slots [of 0] by (simp add: b0)
  then show ?thesis using enc by simp
qed

text \<open>
  C7, as the code has it. \<^verbatim>\<open>encode\<close> has no check of its input. On the empty list of
  sentences no batch is processed, and the outcome depends on the batch size and the output
  format only: \<^verbatim>\<open>range\<close> raises ValueError for a batch size of zero; otherwise
  \<^verbatim>\<open>torch.stack\<close> raises RuntimeError when a stacked tensor is requested, and in the
  numpy and list formats the call returns an empty array or an empty list.
\<close>

theorem encode_empty_sequence:
  assumes "is_argsort [] (argsort [])"
  shows "encode argsort tokenizer model self (Sentences []) batch_size convert_to_numpy
           convert_to_tensor
     = (if batch_size = 0 then Inl ValueError
        else if convert_to_tensor then Inl RuntimeError
        else if convert_to_numpy then Inr (Stacked Numpy [])
        else Inr (PyList []))"
proof -
  have a: "argsort [] = []" using is_argsort_props(1) [OF assms] by simp
  have l: "encode_loop embed_batch [] bs 0 [] = Inr []" for embed_batch bs
    by (subst encode_loop.simps) simp
  show ?thesis
    by (simp add: encode_def a l torch_stack_def np_asarray_def)
qed

theorem encode_empty_sequence_witness:
  "encode insertion_argsort demo_tokenizer demo_model (demo_self (Some MEAN)) (Sentences [])
       8 False False
     = Inr (PyList [])"
proof -
  have "is_argsort [] (insertion_argsort [])" by code_simp
  from encode_empty_sequence [of insertion_argsort demo_tokenizer demo_model
      "demo_self (Some MEAN)" 8 False False, OF this]
  show ?thesis by simp
qed

text \<open>
  The claim as stated fails: with the default arguments (batch size 64, numpy output) the
  empty list of sentences is encoded to an empty array, and nothing is raised.
\<close>

theorem encode_empty_sequence_counterexample:
  "encode insertion_argsort demo_tokenizer demo_model (demo_self (Some CLS)) (Sentences [])
       64 True False
     = Inr (Stacked Numpy [])"
  by code_simp


section \<open>Theorems on \<^verbatim>\<open>evaluate\<close>\<close>

lemma sort_result_keys:
  "sort [''eval_spearman'', ''eval_pearson''] = [''eval_pearson'', ''eval_spearman'']"
  by code_simp

text \<open>
  C8. When the loop over the batches ends and the two correlation functions return,
  \<^verbatim>\<open>evaluate\<close> returns the dict with exactly the keys \<^verbatim>\<open>eval_spearman\<close> and
  \<^verbatim>\<open>eval_pearson\<close> (inserted in this order), bound to the two coefficients. When an
  output directory is given and is not the empty string, the text written to
  \<^verbatim>\<open>eval_results.txt\<close> is one line \<^verbatim>\<open>key = value\<close> per entry, each ended by a
  newline, with the keys in lexicographic order: \<^verbatim>\<open>eval_pearson\<close> first. Otherwise
  nothing is written.
\<close>

theorem evaluate_result_keys_and_report:
  assumes "eval_batches model enc cosine_similarity eval_dataloader [] []
             = Inr (batch_labels, batch_preds)"
    and "compute_spearmanr batch_labels batch_preds = Inr spearman"
    and "compute_pearsonr batch_labels batch_preds = Inr pearson"
  shows "evaluate model enc cosine_similarity compute_spearmanr compute_pearsonr str
           eval_dataloader output_dir
     = Inr ([(''eval_spearman'', spearman), (''eval_pearson'', pearson)],
            (case output_dir of
               None \<Rightarrow> None
             | Some dir \<Rightarrow>
                 if dir = [] then None
                 else Some (dir, ''eval_results.txt'',
                            ''eval_pearson = '' @ str pearson @ [CHR 0x0A]
                            @ ''eval_spearman = '' @ str spearman @ [CHR 0x0A])))"
proof -
  have keys: "sort (map fst (dict_set (dict_set [] ''eval_spearman'' spearman)
                               ''eval_pearson'' pearson))
      = [''eval_pearson'', ''eval_spearman'']"
    using sort_result_keys by simp
  show ?thesis
    unfolding evaluate_def Let_def keys
    using assms by (simp split: option.splits)
qed

theorem evaluate_result_keys_and_report_witness:
  "evaluate demo_model (Some CLS) (\<lambda>a b. Inr [1]) (\<lambda>labels preds. Inr ''0.9'')
       (\<lambda>labels preds. Inr ''0.8'') (\<lambda>v. v)
       [((Tensor3 1 1 3 [[[5, 6, 7]]], Tensor3 1 1 3 [[[1, 1, 1]]], Tensor3 1 1 3 [[[0, 0, 0]]]),
         (Tensor3 1 1 3 [[[5, 6, 8]]], Tensor3 1 1 3 [[[1, 1, 1]]], Tensor3 1 1 3 [[[0, 0, 0]]]),
         [4])]
       (Some ''out'')
     = Inr ([(''eval_spearman'', ''0.9''), (''eval_pearson'', ''0.8'')],
            Some (''out'', ''eval_results.txt'',
                  ''eval_pearson = 0.8'' @ [CHR 0x0A] @ ''eval_spearman = 0.9'' @ [CHR 0x0A]))"
proof -
  have loop: "eval_batches demo_model (Some CLS) (\<lambda>a b. Inr [1])
       [((Tensor3 1 1 3 [[[5, 6, 7]]], Tensor3 1 1 3 [[[1, 1, 1]]], Tensor3 1 1 3 [[[0, 0, 0]]]),
         (Tensor3 1 1 3 [[[5, 6, 8]]], Tensor3 1 1 3 [[[1, 1, 1]]], Tensor3 1 1 3 [[[0, 0, 0]]]),
         [4])] [] []
     = Inr ([4], [1])"
    by code_simp
  show ?thesis
    using evaluate_result_keys_and_report
      [of demo_model "Some CLS" "\<lambda>a b. Inr [1]" _ "[4]" "[1]"
          "\<lambda>labels preds. Inr ''0.9''" "''0.9''" "\<lambda>labels preds. Inr ''0.8''" "''0.8''"
          "\<lambda>v. v" "Some ''out''",
       OF loop]
    by simp
qed


end
